theory Spec2Isabelle
  imports Complex_Main
begin

section \<open>Fighting Arena: the simulation core of \<^verbatim>\<open>App.js\<close>\<close>

text \<open>
  The game keeps two fighter objects, a round timer and a few flags as React state and
  advances them once per animation frame.  JavaScript numbers are modelled as real
  numbers (no value in the game is ever NaN or infinite: velocities are clamped, damped
  or shifted by constants), a missing object property as \<open>None\<close>, and every object that
  the source builds with a spread as a fresh record value.  Every frame starts from the
  state that the frame before it stored.
\<close>

subsection \<open>Game constants\<close>

definition ARENA_WIDTH :: real where "ARENA_WIDTH = 960"
definition FLOOR_Y :: real where "FLOOR_Y = 320"
definition GRAVITY :: real where "GRAVITY = 0.7"
definition FRICTION :: real where "FRICTION = 0.85"
definition MAX_SPEED :: real where "MAX_SPEED = 5"
definition JUMP_VELOCITY :: real where "JUMP_VELOCITY = - 12"
definition ATTACK_COOLDOWN :: real where "ATTACK_COOLDOWN = 350"
definition HEAVY_COOLDOWN :: real where "HEAVY_COOLDOWN = 700"
definition SPECIAL_COOLDOWN :: real where "SPECIAL_COOLDOWN = 2200"
definition BLOCK_REDUCTION :: real where "BLOCK_REDUCTION = 0.65"
definition ROUND_TIME :: real where "ROUND_TIME = 60"
definition WIN_ROUNDS :: nat where "WIN_ROUNDS = 2"

subsection \<open>Keys and controls\<close>

text \<open>
  \<^verbatim>\<open>keysRef.current\<close> is an object from key names to booleans; a key that was never
  touched is absent.  The source reads it as \<^verbatim>\<open>!!k[name]\<close>, which is true only for a
  stored \<^verbatim>\<open>true\<close>.
\<close>

type_synonym keys = "string \<rightharpoonup> bool"

definition pressed :: "keys \<Rightarrow> string \<Rightarrow> bool" where
  "pressed k name = (k name = Some True)"

record controls =
  left :: string
  right :: string
  up :: string
  down :: string
  light :: string
  heavy :: string
  special :: string

definition CONTROLS_p1 :: controls where
  "CONTROLS_p1 = \<lparr>left = ''a'', right = ''d'', up = ''w'', down = ''s'',
     light = ''j'', heavy = ''k'', special = ''u''\<rparr>"

definition CONTROLS_p2 :: controls where
  "CONTROLS_p2 = \<lparr>left = ''ArrowLeft'', right = ''ArrowRight'', up = ''ArrowUp'',
     down = ''ArrowDown'', light = ''Numpad1'', heavy = ''Numpad2'', special = ''Numpad3''\<rparr>"

subsection \<open>Fighters\<close>

datatype attack = Light | Heavy | Special

text \<open>
  The \<^verbatim>\<open>cooldowns\<close> object \<^verbatim>\<open>{light, heavy, special}\<close> is a function from the attack
  type to the timestamp stored for it; \<^verbatim>\<open>attackType\<close> is \<^verbatim>\<open>null\<close> or one of the
  three names.  The spread in \<^verbatim>\<open>controlPlayer\<close> is shallow, so the stepped fighter
  shares its \<^verbatim>\<open>cooldowns\<close> object with the fighter it was made from, and starting an
  attack writes into both.  Nothing reads the old fighter's cooldowns after that write,
  so the record keeps one function per fighter value.
\<close>

record fighter =
  x :: real
  y :: real
  vx :: real
  vy :: real
  width :: real
  height :: real
  facing :: int
  palette :: string
  onGround :: bool
  attacking :: bool
  attackType :: "attack option"
  attackTimer :: real
  block :: bool
  canAct :: bool
  hp :: real
  rounds :: nat
  cooldowns :: "attack \<Rightarrow> real"
  hitflash :: real
  blockflash :: real

definition createFighter :: "real \<Rightarrow> int \<Rightarrow> string \<Rightarrow> fighter" where
  "createFighter x0 facing0 palette0 =
     \<lparr>x = x0, y = FLOOR_Y, vx = 0, vy = 0, width = 48, height = 78, facing = facing0,
      palette = palette0, onGround = True, attacking = False, attackType = None,
      attackTimer = 0, block = False, canAct = True, hp = 100, rounds = 0,
      cooldowns = (\<lambda>_. 0), hitflash = 0, blockflash = 0\<rparr>"

record rect =
  rect_x :: real
  rect_y :: real
  rect_width :: real
  rect_height :: real

definition rectsOverlap :: "rect \<Rightarrow> rect \<Rightarrow> bool" where
  "rectsOverlap a b =
     (\<not> (rect_x a + rect_width a < rect_x b \<or>
         rect_x a > rect_x b + rect_width b \<or>
         rect_y a < rect_y b - rect_height b \<or>
         rect_y a - rect_height a > rect_y b))"

definition clamp :: "real \<Rightarrow> real \<Rightarrow> real \<Rightarrow> real" where
  "clamp v lo hi = max lo (min hi v)"

definition getAttackHitbox :: "fighter \<Rightarrow> attack \<Rightarrow> rect" where
  "getAttackHitbox f ty =
     (let reach = (if ty = Heavy then 56 else if ty = Light then 42 else 68)
      in \<lparr>rect_x = (if facing f = 1 then x f + width f else x f - reach),
          rect_y = y f - height f / 2,
          rect_width = reach,
          rect_height = 24\<rparr>)"

definition resolveFacing :: "fighter \<Rightarrow> fighter \<Rightarrow> fighter \<times> fighter" where
  "resolveFacing a b =
     (let leftIsP1 = (x a < x b)
      in (a\<lparr>facing := (if leftIsP1 then 1 else - 1)\<rparr>,
          b\<lparr>facing := (if leftIsP1 then - 1 else 1)\<rparr>))"

subsection \<open>One simulation step of one fighter: \<^verbatim>\<open>controlPlayer\<close>\<close>

text \<open>
  \<^verbatim>\<open>controlPlayer\<close> is a closure of the frame callback: besides its arguments it reads
  the key object \<open>k\<close> captured at the start of the frame and the frame's \<open>delta\<close>.  Its
  body is a sequence of blocks, each introduced by a comment in the source; every block
  is one function here and \<open>controlPlayer\<close> is their composition in source order.
\<close>

definition blocking :: "keys \<Rightarrow> controls \<Rightarrow> fighter \<Rightarrow> fighter" where
  "blocking k control nx = nx\<lparr>block := pressed k (down control)\<rparr>"

definition horizontal :: "keys \<Rightarrow> controls \<Rightarrow> fighter \<Rightarrow> fighter" where
  "horizontal k control nx =
     (let l = pressed k (left control); r = pressed k (right control); accel = 0.8
      in if l \<and> \<not> r then nx\<lparr>vx := clamp (vx nx - accel) (- MAX_SPEED) MAX_SPEED\<rparr>
         else if r \<and> \<not> l then nx\<lparr>vx := clamp (vx nx + accel) (- MAX_SPEED) MAX_SPEED\<rparr>
         else (let v = vx nx * FRICTION in nx\<lparr>vx := (if \<bar>v\<bar> < 0.08 then 0 else v)\<rparr>))"

definition jump :: "keys \<Rightarrow> controls \<Rightarrow> fighter \<Rightarrow> fighter" where
  "jump k control nx =
     (if pressed k (up control) \<and> onGround nx
      then nx\<lparr>vy := JUMP_VELOCITY, onGround := False\<rparr> else nx)"

definition attacks :: "keys \<Rightarrow> controls \<Rightarrow> real \<Rightarrow> fighter \<Rightarrow> fighter" where
  "attacks k control now nx =
     (let wantLight = pressed k (light control);
          wantHeavy = pressed k (heavy control);
          wantSpecial = pressed k (special control);
          canLight = (now \<ge> cooldowns nx Light);
          canHeavy = (now \<ge> cooldowns nx Heavy);
          canSpecial = (now \<ge> cooldowns nx Special)
      in if \<not> attacking nx \<and> \<not> block nx \<and> canAct nx then
           if wantSpecial \<and> canSpecial then
             nx\<lparr>attacking := True, attackType := Some Special, attackTimer := 240,
                cooldowns := (cooldowns nx)(Special := now + SPECIAL_COOLDOWN)\<rparr>
           else if wantHeavy \<and> canHeavy then
             nx\<lparr>attacking := True, attackType := Some Heavy, attackTimer := 180,
                cooldowns := (cooldowns nx)(Heavy := now + HEAVY_COOLDOWN)\<rparr>
           else if wantLight \<and> canLight then
             nx\<lparr>attacking := True, attackType := Some Light, attackTimer := 120,
                cooldowns := (cooldowns nx)(Light := now + ATTACK_COOLDOWN)\<rparr>
           else nx
         else nx)"

definition integrate_physics :: "fighter \<Rightarrow> fighter" where
  "integrate_physics nx0 =
     (let nx = nx0\<lparr>vy := vy nx0 + GRAVITY\<rparr>;
          nx = nx\<lparr>x := clamp (x nx + vx nx) 24 (ARENA_WIDTH - 24)\<rparr>;
          nx = nx\<lparr>y := y nx + vy nx\<rparr>
      in if y nx \<ge> FLOOR_Y then nx\<lparr>y := FLOOR_Y, vy := 0, onGround := True\<rparr> else nx)"

definition update_animation_timers :: "real \<Rightarrow> fighter \<Rightarrow> fighter" where
  "update_animation_timers delta nx0 =
     (let nx = (if hitflash nx0 > 0 then nx0\<lparr>hitflash := hitflash nx0 - delta\<rparr> else nx0);
          nx = (if blockflash nx > 0 then nx\<lparr>blockflash := blockflash nx - delta\<rparr> else nx)
      in if attacking nx then
           (let nx = nx\<lparr>attackTimer := attackTimer nx - delta\<rparr>
            in if attackTimer nx \<le> 0 then nx\<lparr>attacking := False, attackType := None\<rparr> else nx)
         else nx)"

definition controlPlayer :: "keys \<Rightarrow> real \<Rightarrow> fighter \<Rightarrow> controls \<Rightarrow> real \<Rightarrow> fighter" where
  "controlPlayer k delta f control now =
     update_animation_timers delta
       (integrate_physics
         (attacks k control now
           (jump k control
             (horizontal k control
               (blocking k control f)))))"

subsection \<open>Hit resolution: \<^verbatim>\<open>handleHit\<close>\<close>

definition connects :: "fighter \<Rightarrow> attack \<Rightarrow> fighter \<Rightarrow> bool" where
  "connects attacker ty defender =
     (let hitbox = getAttackHitbox attacker ty;
          hurtbox = \<lparr>rect_x = x defender - width defender / 2, rect_y = y defender,
                     rect_width = width defender, rect_height = height defender\<rparr>
      in rectsOverlap
           \<lparr>rect_x = rect_x hitbox, rect_y = rect_y hitbox,
            rect_width = rect_width hitbox, rect_height = rect_height hitbox\<rparr>
           \<lparr>rect_x = rect_x hurtbox, rect_y = rect_y hurtbox - rect_height hurtbox,
            rect_width = rect_width hurtbox, rect_height = rect_height hurtbox\<rparr>)"

definition baseDmg :: "attack \<Rightarrow> real" where
  "baseDmg ty = (if ty = Light then 6 else if ty = Heavy then 12 else 18)"

definition dmg :: "attack \<Rightarrow> bool \<Rightarrow> real" where
  "dmg ty blocked =
     (if blocked then of_int \<lceil>baseDmg ty * (1 - BLOCK_REDUCTION)\<rceil> else baseDmg ty)"

definition kb :: "attack \<Rightarrow> real" where
  "kb ty = (if ty = Heavy then 3.2 else if ty = Special then 4 else 2.2)"

definition handleHit :: "fighter \<Rightarrow> fighter \<Rightarrow> fighter" where
  "handleHit attacker defender =
     (case attackType attacker of
        None \<Rightarrow> defender
      | Some ty \<Rightarrow>
          if \<not> attacking attacker then defender
          else if \<not> (attackTimer attacker > 40) then defender
          else if connects attacker ty defender then
            (let nd = defender\<lparr>hp := clamp (hp defender - dmg ty (block defender)) 0 100\<rparr>;
                 nd = (if block defender then nd\<lparr>blockflash := 160\<rparr> else nd\<lparr>hitflash := 160\<rparr>)
             in nd\<lparr>vx := vx nd + kb ty * (if facing attacker = 1 then 1 else - 1)\<rparr>)
          else defender)"

subsection \<open>The computer opponent: \<^verbatim>\<open>controlAI\<close>\<close>

datatype difficulty_name = Easy | Normal | Hard

record cfg =
  reactionMs :: "real \<times> real"
  blockChance :: real
  specialChance :: real
  aggression :: real

definition DIFFICULTY :: "difficulty_name \<Rightarrow> cfg" where
  "DIFFICULTY d =
     (case d of
        Easy \<Rightarrow> \<lparr>reactionMs = (500, 900), blockChance = 0.25, specialChance = 0.1, aggression = 0.3\<rparr>
      | Normal \<Rightarrow> \<lparr>reactionMs = (350, 650), blockChance = 0.45, specialChance = 0.2, aggression = 0.55\<rparr>
      | Hard \<Rightarrow> \<lparr>reactionMs = (220, 420), blockChance = 0.65, specialChance = 0.35, aggression = 0.75\<rparr>)"

text \<open>
  \<^verbatim>\<open>Math.random()\<close> is an input of the model: the record below holds the value that
  each call site of \<^verbatim>\<open>controlAI\<close> receives in the frame, in source order.  (The value
  drawn for \<^verbatim>\<open>reactIn\<close> is computed and never used by the source.)
\<close>

record rolls =
  roll_advance :: real
  roll_block :: real
  roll_jump :: real
  roll_react :: real
  roll_light :: real
  roll_heavy :: real
  roll_special :: real

text \<open>
  The synthetic key map built by \<^verbatim>\<open>controlAI\<close>: a copy of \<^verbatim>\<open>keysRef.current\<close> in
  which the seven keys of player 2 are first cleared and then set by the decision rules.
\<close>

definition synth_keys :: "keys \<Rightarrow> cfg \<Rightarrow> rolls \<Rightarrow> fighter \<Rightarrow> fighter \<Rightarrow> real \<Rightarrow> keys" where
  "synth_keys keysRef c rnd f enemy now =
     (let dist = \<bar>x enemy - x f\<bar>;
          towardEnemy = (x enemy > x f);
          shouldAdvance = (roll_advance rnd < aggression c);
          shouldBlock = (roll_block rnd < blockChance c \<and> attacking enemy);
          canAct' = (now \<ge> cooldowns f Light \<and> now \<ge> cooldowns f Heavy \<and>
                     now \<ge> cooldowns f Special \<and> \<not> attacking f);
          synth = keysRef;
          synth = synth(left CONTROLS_p2 \<mapsto> False);
          synth = synth(right CONTROLS_p2 \<mapsto> False);
          synth = synth(up CONTROLS_p2 \<mapsto> False);
          synth = synth(down CONTROLS_p2 \<mapsto> False);
          synth = synth(light CONTROLS_p2 \<mapsto> False);
          synth = synth(heavy CONTROLS_p2 \<mapsto> False);
          synth = synth(special CONTROLS_p2 \<mapsto> False);
          targetMin = 72;
          targetMax = 120;
          synth = (if dist > targetMax \<and> shouldAdvance then
                     (if towardEnemy then synth(right CONTROLS_p2 \<mapsto> True)
                      else synth(left CONTROLS_p2 \<mapsto> True))
                   else if dist < targetMin then
                     (if towardEnemy then synth(left CONTROLS_p2 \<mapsto> True)
                      else synth(right CONTROLS_p2 \<mapsto> True))
                   else synth);
          synth = (if \<not> onGround f \<and> roll_jump rnd < 0.02
                   then synth(up CONTROLS_p2 \<mapsto> True) else synth);
          synth = (if shouldBlock \<and> dist < 100
                   then synth(down CONTROLS_p2 \<mapsto> True) else synth);
          synth = (if canAct' then
                     (if dist < 60 \<and> roll_light rnd < 0.6 then synth(light CONTROLS_p2 \<mapsto> True)
                      else if dist < 80 \<and> roll_heavy rnd < 0.4 then synth(heavy CONTROLS_p2 \<mapsto> True)
                      else if dist < 110 \<and> roll_special rnd < specialChance c
                        then synth(special CONTROLS_p2 \<mapsto> True)
                      else synth)
                   else synth)
      in synth)"

text \<open>
  \<^verbatim>\<open>controlAI\<close> assigns the merged object to \<^verbatim>\<open>keysRef.current\<close> and then calls
  \<^verbatim>\<open>controlPlayer\<close>, which still reads the object \<open>k\<close> that the frame captured before
  the assignment.  The result is the new fighter and the new content of
  \<^verbatim>\<open>keysRef.current\<close>.
\<close>

definition controlAI ::
  "keys \<Rightarrow> real \<Rightarrow> difficulty_name \<Rightarrow> rolls \<Rightarrow> keys \<Rightarrow> fighter \<Rightarrow> fighter \<Rightarrow> real \<Rightarrow> fighter \<times> keys" where
  "controlAI k delta difficulty0 rnd keysRef f enemy now =
     (let synth = synth_keys keysRef (DIFFICULTY difficulty0) rnd f enemy now;
          keysRef' = keysRef ++ synth
      in (controlPlayer k delta f CONTROLS_p2 now, keysRef'))"

subsection \<open>The application state and one frame of the game loop\<close>

datatype side = Player1 | Player2

datatype game_mode = PvP | PvAI

record world =
  mode :: game_mode
  difficulty :: difficulty_name
  p1 :: fighter
  p2 :: fighter
  timer :: real
  paused :: bool
  roundOver :: bool
  winnerRound :: "side option"
  matchWinner :: "side option"

definition initial_world :: world where
  "initial_world =
     \<lparr>mode = PvAI, difficulty = Normal,
      p1 = createFighter (ARENA_WIDTH * 0.25) 1 ''blue'',
      p2 = createFighter (ARENA_WIDTH * 0.75) (- 1) ''amber'',
      timer = ROUND_TIME, paused = False, roundOver = False,
      winnerRound = None, matchWinner = None\<rparr>"

text \<open>
  The updater passed to \<^verbatim>\<open>setTimer\<close>: the new timer value and, when the time is up, the
  value it passes to \<^verbatim>\<open>setWinnerRound\<close> (followed by \<^verbatim>\<open>setRoundOver(true)\<close>).  The
  fighters it compares are the ones of the render that created the callback, that is the
  state before this frame.
\<close>

definition countdown :: "real \<Rightarrow> real \<Rightarrow> fighter \<Rightarrow> fighter \<Rightarrow> real \<times> side option option" where
  "countdown t delta q1 q2 =
     (let next = t - delta / 1000
      in if next \<le> 0 then
           (0, Some (if hp q1 = hp q2 then None
                     else if hp q1 > hp q2 then Some Player1 else Some Player2))
         else (next, None))"

definition control_both ::
  "keys \<Rightarrow> real \<Rightarrow> real \<Rightarrow> rolls \<Rightarrow> world \<Rightarrow> (fighter \<times> fighter) \<times> keys" where
  "control_both k delta now rnd w =
     (let np1 = (if mode w = PvP then controlPlayer k delta (p1 w) CONTROLS_p1 now
                 else controlPlayer k delta (p1 w) CONTROLS_p1 now);
          (np2, keysRef') =
            (if mode w = PvP then (controlPlayer k delta (p2 w) CONTROLS_p2 now, k)
             else controlAI k delta (difficulty w) rnd k (p2 w) (p1 w) now)
      in (resolveFacing np1 np2, keysRef'))"

definition apply_hits :: "fighter \<times> fighter \<Rightarrow> fighter \<times> fighter" where
  "apply_hits nps =
     (let np1 = fst nps;
          np2 = handleHit np1 (snd nps);
          np1 = handleHit np2 np1
      in (np1, np2))"

definition push_apart :: "fighter \<times> fighter \<Rightarrow> fighter \<times> fighter" where
  "push_apart nps =
     (let np1 = fst nps; np2 = snd nps;
          overlapX = (if \<bar>x np1 - x np2\<bar> < (width np1 + width np2) / 2
                      then (width np1 + width np2) / 2 - \<bar>x np1 - x np2\<bar> else 0)
      in if overlapX > 0 then
           (let push = overlapX / 2 + 0.1
            in if x np1 < x np2 then
                 (np1\<lparr>x := clamp (x np1 - push) 24 (ARENA_WIDTH - 24)\<rparr>,
                  np2\<lparr>x := clamp (x np2 + push) 24 (ARENA_WIDTH - 24)\<rparr>)
               else
                 (np1\<lparr>x := clamp (x np1 + push) 24 (ARENA_WIDTH - 24)\<rparr>,
                  np2\<lparr>x := clamp (x np2 - push) 24 (ARENA_WIDTH - 24)\<rparr>))
         else (np1, np2))"

text \<open>The KO check: the argument of \<^verbatim>\<open>setWinnerRound\<close>, when the check fires.\<close>

definition check_KO :: "fighter \<Rightarrow> fighter \<Rightarrow> side option" where
  "check_KO np1 np2 =
     (if hp np1 \<le> 0 \<or> hp np2 \<le> 0
      then Some (if hp np1 \<le> 0 then Player2 else Player1) else None)"

definition round_end :: "side option option \<Rightarrow> world \<Rightarrow> world" where
  "round_end e w =
     (case e of None \<Rightarrow> w | Some win \<Rightarrow> w\<lparr>winnerRound := win, roundOver := True\<rparr>)"

text \<open>
  One call of the frame callback.  It returns early while the game is paused or the round
  or the match is over.  Otherwise it queues the timer update, steps both fighters,
  resolves hits and overlap, stores the fighters and checks for a KO.

  React runs the timer updater either at once, inside the call of \<^verbatim>\<open>setTimer\<close> (then
  its \<^verbatim>\<open>setWinnerRound\<close> is queued before the one of the KO check), or during the next
  render (then it is queued after it).  The flag \<open>updaterFirst\<close> says which; the last
  queued value is the one the state keeps.  The order only matters in a frame where the
  time runs out and a fighter is knocked out.
\<close>

definition tick :: "bool \<Rightarrow> real \<Rightarrow> real \<Rightarrow> rolls \<Rightarrow> world \<times> keys \<Rightarrow> world \<times> keys" where
  "tick updaterFirst delta now rnd wk =
     (let w = fst wk; k = snd wk
      in if paused w \<or> roundOver w \<or> matchWinner w \<noteq> None then wk
         else
           (let (t', timeup) = (if delta > 0 then countdown (timer w) delta (p1 w) (p2 w)
                                else (timer w, None));
                (nps, keysRef') = control_both k delta now rnd w;
                nps = push_apart (apply_hits nps);
                ko = map_option Some (check_KO (fst nps) (snd nps));
                w' = w\<lparr>p1 := fst nps, p2 := snd nps, timer := t'\<rparr>;
                w' = (if updaterFirst then round_end ko (round_end timeup w')
                      else round_end timeup (round_end ko w'))
            in (w', keysRef')))"

subsection \<open>Round transitions\<close>

definition checkChampion :: "nat \<Rightarrow> nat \<Rightarrow> side option" where
  "checkChampion r1 r2 =
     (if r1 \<ge> WIN_ROUNDS then Some Player1
      else if r2 \<ge> WIN_ROUNDS then Some Player2
      else None)"

text \<open>The two state updates that \<^verbatim>\<open>nextRound\<close> queues at the click.\<close>

definition nextRound_click :: "world \<Rightarrow> world" where
  "nextRound_click w =
     (let wr = winnerRound w
      in if wr = Some Player1 then w\<lparr>p1 := (p1 w)\<lparr>rounds := rounds (p1 w) + 1\<rparr>\<rparr>
         else if wr = Some Player2 then w\<lparr>p2 := (p2 w)\<lparr>rounds := rounds (p2 w) + 1\<rparr>\<rparr>
         else w)"

text \<open>
  The callback that \<^verbatim>\<open>nextRound\<close> schedules with \<^verbatim>\<open>setTimeout\<close>.  Its updaters run in
  order on the state they find; \<open>wr\<close>, \<open>c1\<close> and \<open>c2\<close> are the values of
  \<^verbatim>\<open>winnerRound\<close>, \<^verbatim>\<open>p1\<close> and \<^verbatim>\<open>p2\<close> that the closure captured at the click.
\<close>

definition nextRound_timeout :: "side option \<Rightarrow> fighter \<Rightarrow> fighter \<Rightarrow> world \<Rightarrow> world" where
  "nextRound_timeout wr c1 c2 w0 =
     (let w = w0\<lparr>p1 := createFighter (ARENA_WIDTH * 0.25) 1 ''blue''\<rparr>;
          w = w\<lparr>p2 := (let prev = p2 w;
                            r = (if wr = Some Player2 then rounds prev + 1 else rounds prev);
                            f = createFighter (ARENA_WIDTH * 0.75) (- 1) ''amber''
                        in f\<lparr>rounds := r\<rparr>)\<rparr>;
          w = w\<lparr>p1 := (let prev = p1 w;
                            r = (if wr = Some Player1 then rounds prev else rounds prev)
                        in prev\<lparr>rounds := r\<rparr>)\<rparr>;
          w = w\<lparr>timer := ROUND_TIME\<rparr>;
          w = w\<lparr>roundOver := False\<rparr>;
          w = w\<lparr>winnerRound := None\<rparr>
      in w\<lparr>matchWinner :=
             (let r1 = (if wr = Some Player1 then rounds c1 + 1 else rounds c1);
                  r2 = (if wr = Some Player2 then rounds c2 + 1 else rounds c2)
              in checkChampion r1 r2)\<rparr>)"

definition nextRound :: "world \<Rightarrow> world" where
  "nextRound w = nextRound_timeout (winnerRound w) (p1 w) (p2 w) (nextRound_click w)"

definition resetMatch :: "world \<Rightarrow> world" where
  "resetMatch w =
     w\<lparr>p1 := createFighter (ARENA_WIDTH * 0.25) 1 ''blue'',
       p2 := createFighter (ARENA_WIDTH * 0.75) (- 1) ''amber'',
       timer := ROUND_TIME, roundOver := False, winnerRound := None, matchWinner := None\<rparr>"

text \<open>
  The states a game can be in: the initial one and whatever frames, the two buttons of the
  round-over overlay and the settings of the header make of it.  A frame may find any keys
  pressed, and the timeout of \<^verbatim>\<open>nextRound\<close> may run with any captured values, which
  covers a reset or a second click during its 200 ms.
\<close>

inductive reachable :: "world \<Rightarrow> bool" where
  reach_init: "reachable initial_world"
| reach_tick: "reachable w \<Longrightarrow> reachable (fst (tick updaterFirst delta now rnd (w, k)))"
| reach_click: "reachable w \<Longrightarrow> reachable (nextRound_click w)"
| reach_timeout: "reachable w \<Longrightarrow> reachable (nextRound_timeout wr c1 c2 w)"
| reach_resetMatch: "reachable w \<Longrightarrow> reachable (resetMatch w)"
| reach_setMode: "reachable w \<Longrightarrow> reachable (w\<lparr>mode := m\<rparr>)"
| reach_setDifficulty: "reachable w \<Longrightarrow> reachable (w\<lparr>difficulty := d\<rparr>)"
| reach_setPaused: "reachable w \<Longrightarrow> reachable (w\<lparr>paused := \<not> paused w\<rparr>)"

subsection \<open>The specification's account of attack initiation\<close>

text \<open>
  The specification describes the attack block of \<^verbatim>\<open>controlPlayer\<close> as a search: among
  the attack types in the order special, heavy, light, take the first one that is wanted
  and off cooldown.  The definitions below follow that description; they are compared
  with \<open>attacks\<close>, which follows the source.
\<close>

definition spec_intent :: "keys \<Rightarrow> controls \<Rightarrow> attack \<Rightarrow> bool" where
  "spec_intent k control ty =
     pressed k (case ty of Light \<Rightarrow> light control | Heavy \<Rightarrow> heavy control
                | Special \<Rightarrow> special control)"

definition spec_duration :: "attack \<Rightarrow> real" where
  "spec_duration ty = (case ty of Light \<Rightarrow> 120 | Heavy \<Rightarrow> 180 | Special \<Rightarrow> 240)"

definition spec_cooldown :: "attack \<Rightarrow> real" where
  "spec_cooldown ty = (case ty of Light \<Rightarrow> 350 | Heavy \<Rightarrow> 700 | Special \<Rightarrow> 2200)"

definition spec_candidate :: "keys \<Rightarrow> controls \<Rightarrow> real \<Rightarrow> fighter \<Rightarrow> attack option" where
  "spec_candidate k control now nx =
     (if \<not> attacking nx \<and> \<not> block nx \<and> canAct nx
      then find (\<lambda>ty. spec_intent k control ty \<and> cooldowns nx ty \<le> now) [Special, Heavy, Light]
      else None)"

definition spec_initiate :: "keys \<Rightarrow> controls \<Rightarrow> real \<Rightarrow> fighter \<Rightarrow> fighter" where
  "spec_initiate k control now nx =
     (case spec_candidate k control now nx of
        None \<Rightarrow> nx
      | Some ty \<Rightarrow> nx\<lparr>attacking := True, attackType := Some ty, attackTimer := spec_duration ty,
                      cooldowns := (cooldowns nx)(ty := now + spec_cooldown ty)\<rparr>)"

subsection \<open>Invariants and concrete situations\<close>

definition timer_inv :: "fighter \<Rightarrow> bool" where
  "timer_inv f = (attackTimer f > 0 \<longleftrightarrow> attacking f)"

definition in_bounds :: "fighter \<Rightarrow> bool" where
  "in_bounds f = (0 \<le> hp f \<and> hp f \<le> 100 \<and> 24 \<le> x f \<and> x f \<le> 960 - 24)"

text \<open>
  Player 1 in the air, 20 pixels above the floor, 16 ms into a light attack, and player 2
  standing 60 pixels to the right.  (With both fighters on the floor the hitbox and the
  shifted hurtbox that \<^verbatim>\<open>handleHit\<close> compares never meet.)
\<close>

definition airborne_attacker :: fighter where
  "airborne_attacker =
     (createFighter 240 1 ''blue'')\<lparr>y := 300, onGround := False, attacking := True,
        attackType := Some Light, attackTimer := 104, cooldowns := (\<lambda>_. 0)(Light := 1350)\<rparr>"

definition standing_defender :: fighter where
  "standing_defender = createFighter 300 (- 1) ''amber''"

text \<open>A fresh player 1 whose special attack is on cooldown until 2000 ms.\<close>

definition special_on_cooldown :: fighter where
  "special_on_cooldown = (createFighter 240 1 ''blue'')\<lparr>cooldowns := (\<lambda>_. 0)(Special := 2000)\<rparr>"

text \<open>Values for the seven calls of \<^verbatim>\<open>Math.random()\<close>; only the first is below 0.55.\<close>

definition sample_rolls :: rolls where
  "sample_rolls = \<lparr>roll_advance = 0, roll_block = 0.9, roll_jump = 0.9, roll_react = 0.5,
     roll_light = 0.9, roll_heavy = 0.9, roll_special = 0.9\<rparr>"

text \<open>The mirror image: player 2 in the air on the right, player 1 standing on the left.\<close>

definition airborne_attacker_p2 :: fighter where
  "airborne_attacker_p2 =
     (createFighter 300 (- 1) ''amber'')\<lparr>y := 300, onGround := False, attacking := True,
        attackType := Some Light, attackTimer := 104, cooldowns := (\<lambda>_. 0)(Light := 1350)\<rparr>"

definition standing_defender_p1 :: fighter where
  "standing_defender_p1 = createFighter 240 1 ''blue''"

text \<open>
  The last hundredth of a second of a round between two given fighters, and four such
  frames in which the airborne fighter's light attack lands: player 1 at 50 hits player 2
  at 52; player 1 at 46 hits player 2 at 52; player 2 at 5 takes the last 6 hp of
  player 1; player 1 at 5 takes the last 6 hp of player 2.
\<close>

definition last_frame :: "fighter \<Rightarrow> fighter \<Rightarrow> world" where
  "last_frame f1 f2 = initial_world\<lparr>timer := 0.01, p1 := f1, p2 := f2\<rparr>"

definition late_hit_frame :: world where
  "late_hit_frame = last_frame (airborne_attacker\<lparr>hp := 50\<rparr>) (standing_defender\<lparr>hp := 52\<rparr>)"

definition late_level_frame :: world where
  "late_level_frame = last_frame (airborne_attacker\<lparr>hp := 46\<rparr>) (standing_defender\<lparr>hp := 52\<rparr>)"

definition late_ko_of_p1 :: world where
  "late_ko_of_p1 = last_frame (standing_defender_p1\<lparr>hp := 6\<rparr>) (airborne_attacker_p2\<lparr>hp := 5\<rparr>)"

definition late_ko_of_p2 :: world where
  "late_ko_of_p2 = last_frame (airborne_attacker\<lparr>hp := 5\<rparr>) (standing_defender\<lparr>hp := 6\<rparr>)"

text \<open>Player 1 at the left wall, moving left at full speed.\<close>

definition cornered :: world where
  "cornered = initial_world\<lparr>p1 := (p1 initial_world)\<lparr>x := 24, vx := - 5\<rparr>\<rparr>"

text \<open>The first round of a match, just won by player 1, and the same won by player 2.\<close>

definition round_won_by_p1 :: world where
  "round_won_by_p1 =
     initial_world\<lparr>p1 := (p1 initial_world)\<lparr>hp := 40\<rparr>, p2 := (p2 initial_world)\<lparr>hp := 0\<rparr>,
       roundOver := True, winnerRound := Some Player1\<rparr>"

definition round_won_by_p2 :: world where
  "round_won_by_p2 =
     initial_world\<lparr>p1 := (p1 initial_world)\<lparr>hp := 0\<rparr>, p2 := (p2 initial_world)\<lparr>hp := 40\<rparr>,
       roundOver := True, winnerRound := Some Player2\<rparr>"

section \<open>Properties\<close>

subsection \<open>What each block of \<^verbatim>\<open>controlPlayer\<close> touches\<close>

lemmas game_constants =
  ARENA_WIDTH_def FLOOR_Y_def GRAVITY_def FRICTION_def MAX_SPEED_def JUMP_VELOCITY_def
  ATTACK_COOLDOWN_def HEAVY_COOLDOWN_def SPECIAL_COOLDOWN_def BLOCK_REDUCTION_def
  ROUND_TIME_def WIN_ROUNDS_def

lemma blocking_fields [simp]:
  "block (blocking k control f) = pressed k (down control)"
  "attacking (blocking k control f) = attacking f"
  "attackTimer (blocking k control f) = attackTimer f"
  "attackType (blocking k control f) = attackType f"
  "canAct (blocking k control f) = canAct f"
  "cooldowns (blocking k control f) = cooldowns f"
  "hp (blocking k control f) = hp f"
  "x (blocking k control f) = x f"
  by (simp_all add: blocking_def)

lemma horizontal_fields [simp]:
  "block (horizontal k control f) = block f"
  "attacking (horizontal k control f) = attacking f"
  "attackTimer (horizontal k control f) = attackTimer f"
  "attackType (horizontal k control f) = attackType f"
  "canAct (horizontal k control f) = canAct f"
  "cooldowns (horizontal k control f) = cooldowns f"
  "hp (horizontal k control f) = hp f"
  "x (horizontal k control f) = x f"
  by (simp_all add: horizontal_def Let_def)

lemma jump_fields [simp]:
  "block (jump k control f) = block f"
  "attacking (jump k control f) = attacking f"
  "attackTimer (jump k control f) = attackTimer f"
  "attackType (jump k control f) = attackType f"
  "canAct (jump k control f) = canAct f"
  "cooldowns (jump k control f) = cooldowns f"
  "hp (jump k control f) = hp f"
  "x (jump k control f) = x f"
  by (simp_all add: jump_def)

lemma attacks_fields [simp]:
  "block (attacks k control now f) = block f"
  "canAct (attacks k control now f) = canAct f"
  "hp (attacks k control now f) = hp f"
  "x (attacks k control now f) = x f"
  by (simp_all add: attacks_def Let_def)

lemma integrate_physics_fields [simp]:
  "block (integrate_physics f) = block f"
  "attacking (integrate_physics f) = attacking f"
  "attackTimer (integrate_physics f) = attackTimer f"
  "attackType (integrate_physics f) = attackType f"
  "canAct (integrate_physics f) = canAct f"
  "cooldowns (integrate_physics f) = cooldowns f"
  "hp (integrate_physics f) = hp f"
  "x (integrate_physics f) = clamp (x f + vx f) 24 (ARENA_WIDTH - 24)"
  by (simp_all add: integrate_physics_def Let_def)

lemma update_animation_timers_fields [simp]:
  "block (update_animation_timers delta f) = block f"
  "canAct (update_animation_timers delta f) = canAct f"
  "cooldowns (update_animation_timers delta f) = cooldowns f"
  "hp (update_animation_timers delta f) = hp f"
  "x (update_animation_timers delta f) = x f"
  "attacking (update_animation_timers delta f) = (attacking f \<and> attackTimer f - delta > 0)"
  "attackTimer (update_animation_timers delta f) =
     (if attacking f then attackTimer f - delta else attackTimer f)"
  "attackType (update_animation_timers delta f) =
     (if attacking f \<and> attackTimer f - delta \<le> 0 then None else attackType f)"
  by (auto simp: update_animation_timers_def Let_def)

subsection \<open>The attack block against the specification's search\<close>

lemma attacks_refines: "attacks k control now nx = spec_initiate k control now nx"
  by (simp add: attacks_def spec_initiate_def spec_candidate_def spec_intent_def
      spec_duration_def spec_cooldown_def game_constants Let_def)

lemma spec_initiate_fields:
  "attacking (spec_initiate k control now nx) =
     (attacking nx \<or> spec_candidate k control now nx \<noteq> None)"
  "attackType (spec_initiate k control now nx) =
     (case spec_candidate k control now nx of None \<Rightarrow> attackType nx | Some ty \<Rightarrow> Some ty)"
  "attackTimer (spec_initiate k control now nx) =
     (case spec_candidate k control now nx of None \<Rightarrow> attackTimer nx | Some ty \<Rightarrow> spec_duration ty)"
  "cooldowns (spec_initiate k control now nx) =
     (case spec_candidate k control now nx of None \<Rightarrow> cooldowns nx
      | Some ty \<Rightarrow> (cooldowns nx)(ty := now + spec_cooldown ty))"
  by (simp_all add: spec_initiate_def split: option.splits)

lemma spec_candidate_cong:
  "attacking g = attacking f \<Longrightarrow> block g = block f \<Longrightarrow> canAct g = canAct f \<Longrightarrow>
   cooldowns g = cooldowns f \<Longrightarrow> spec_candidate k control now g = spec_candidate k control now f"
  by (simp add: spec_candidate_def)

lemma candidate_before_attacks:
  "spec_candidate k control now (jump k control (horizontal k control (blocking k control f))) =
   spec_candidate k control now (f\<lparr>block := pressed k (down control)\<rparr>)"
  by (rule spec_candidate_cong) simp_all

lemma spec_candidate_SomeD:
  "spec_candidate k control now nx = Some ty \<Longrightarrow>
     \<not> attacking nx \<and> \<not> block nx \<and> canAct nx \<and> spec_intent k control ty \<and> cooldowns nx ty \<le> now"
  by (auto simp: spec_candidate_def split: if_splits)

lemma controlPlayer_attack_fields:
  fixes f k control now delta
  defines "c \<equiv> spec_candidate k control now (f\<lparr>block := pressed k (down control)\<rparr>)"
  defines "f' \<equiv> controlPlayer k delta f control now"
  shows "cooldowns f' =
           (case c of None \<Rightarrow> cooldowns f | Some ty \<Rightarrow> (cooldowns f)(ty := now + spec_cooldown ty))"
    and "attackTimer f' =
           (case c of None \<Rightarrow> (if attacking f then attackTimer f - delta else attackTimer f)
            | Some ty \<Rightarrow> spec_duration ty - delta)"
    and "attacking f' =
           (case c of None \<Rightarrow> attacking f \<and> attackTimer f - delta > 0
            | Some ty \<Rightarrow> spec_duration ty - delta > 0)"
    and "attackType f' =
           (case c of None \<Rightarrow> (if attacking f \<and> attackTimer f - delta \<le> 0 then None else attackType f)
            | Some ty \<Rightarrow> (if spec_duration ty - delta \<le> 0 then None else Some ty))"
  unfolding c_def f'_def controlPlayer_def
  by (auto simp: attacks_refines spec_initiate_fields candidate_before_attacks
      split: option.splits)

lemma controlPlayer_block [simp]:
  "block (controlPlayer k delta f control now) = pressed k (down control)"
  by (simp add: controlPlayer_def)

lemma controlPlayer_hp [simp]: "hp (controlPlayer k delta f control now) = hp f"
  by (simp add: controlPlayer_def)

lemma controlPlayer_x:
  "x (controlPlayer k delta f control now) =
     clamp (x f + vx (attacks k control now (jump k control (horizontal k control (blocking k control f)))))
        24 (ARENA_WIDTH - 24)"
  by (simp add: controlPlayer_def)

lemma clamp_bounds: "lo \<le> hi \<Longrightarrow> lo \<le> clamp v lo hi \<and> clamp v lo hi \<le> hi"
  by (simp add: clamp_def)

subsection \<open>Hits\<close>

lemma dmg_values:
  "dmg Light True = 3" "dmg Heavy True = 5" "dmg Special True = 7"
  "dmg Light False = 6" "dmg Heavy False = 12" "dmg Special False = 18"
  by (simp_all add: dmg_def baseDmg_def BLOCK_REDUCTION_def)

lemma kb_values: "kb Light = 2.2" "kb Heavy = 3.2" "kb Special = 4"
  by (simp_all add: kb_def)

lemma handleHit_connecting_eq:
  assumes "attacking a" and "attackType a = Some ty" and "attackTimer a > 40"
    and "connects a ty d"
  shows "handleHit a d =
           (if block d
            then d\<lparr>hp := clamp (hp d - dmg ty True) 0 100, blockflash := 160,
                   vx := vx d + kb ty * (if facing a = 1 then 1 else - 1)\<rparr>
            else d\<lparr>hp := clamp (hp d - dmg ty False) 0 100, hitflash := 160,
                   vx := vx d + kb ty * (if facing a = 1 then 1 else - 1)\<rparr>)"
  using assms by (simp add: handleHit_def Let_def)

lemma handleHit_fields [simp]:
  "attacking (handleHit a d) = attacking d"
  "attackTimer (handleHit a d) = attackTimer d"
  "attackType (handleHit a d) = attackType d"
  "x (handleHit a d) = x d"
  "width (handleHit a d) = width d"
  "rounds (handleHit a d) = rounds d"
  by (simp_all add: handleHit_def Let_def split: option.splits)

lemma handleHit_hp:
  "0 \<le> hp d \<Longrightarrow> hp d \<le> 100 \<Longrightarrow> 0 \<le> hp (handleHit a d) \<and> hp (handleHit a d) \<le> 100"
  by (simp add: handleHit_def Let_def clamp_def split: option.splits)

lemma airborne_attacker_connects: "connects airborne_attacker Light standing_defender"
  by (simp add: airborne_attacker_def standing_defender_def connects_def createFighter_def
      getAttackHitbox_def rectsOverlap_def FLOOR_Y_def)

lemma airborne_attacker_connects_blocking:
  "connects airborne_attacker Light (standing_defender\<lparr>block := True\<rparr>)"
  by (simp add: airborne_attacker_def standing_defender_def connects_def createFighter_def
      getAttackHitbox_def rectsOverlap_def FLOOR_Y_def)

lemma handleHit_not_attacking: "\<not> attacking a \<Longrightarrow> handleHit a d = d"
  by (simp add: handleHit_def split: option.splits)

subsection \<open>The attack timer and the bounds through one step\<close>

lemma createFighter_timer_inv [simp]: "timer_inv (createFighter x0 fc pal)"
  by (simp add: timer_inv_def createFighter_def)

lemma controlPlayer_timer_inv:
  "timer_inv f \<Longrightarrow> timer_inv (controlPlayer k delta f control now)"
  by (auto simp: timer_inv_def controlPlayer_attack_fields spec_candidate_def
      split: option.splits if_splits)

lemma controlPlayer_attacking_timer:
  "attacking (controlPlayer k delta f control now) \<Longrightarrow>
     attackTimer (controlPlayer k delta f control now) > 0"
  by (auto simp: controlPlayer_attack_fields split: option.splits if_splits)

lemma controlPlayer_in_bounds:
  "in_bounds f \<Longrightarrow> in_bounds (controlPlayer k delta f control now)"
  by (simp add: in_bounds_def controlPlayer_x clamp_def ARENA_WIDTH_def)

subsection \<open>The stages of a frame\<close>

lemma resolveFacing_fields [simp]:
  "attacking (fst (resolveFacing a b)) = attacking a"
  "attacking (snd (resolveFacing a b)) = attacking b"
  "attackTimer (fst (resolveFacing a b)) = attackTimer a"
  "attackTimer (snd (resolveFacing a b)) = attackTimer b"
  "hp (fst (resolveFacing a b)) = hp a"
  "hp (snd (resolveFacing a b)) = hp b"
  "x (fst (resolveFacing a b)) = x a"
  "x (snd (resolveFacing a b)) = x b"
  by (simp_all add: resolveFacing_def Let_def)

lemma push_apart_fields [simp]:
  "attacking (fst (push_apart nps)) = attacking (fst nps)"
  "attacking (snd (push_apart nps)) = attacking (snd nps)"
  "attackTimer (fst (push_apart nps)) = attackTimer (fst nps)"
  "attackTimer (snd (push_apart nps)) = attackTimer (snd nps)"
  "hp (fst (push_apart nps)) = hp (fst nps)"
  "hp (snd (push_apart nps)) = hp (snd nps)"
  by (simp_all add: push_apart_def Let_def)

lemma push_apart_x:
  "24 \<le> x (fst nps) \<and> x (fst nps) \<le> 960 - 24 \<Longrightarrow>
     24 \<le> x (fst (push_apart nps)) \<and> x (fst (push_apart nps)) \<le> 960 - 24"
  "24 \<le> x (snd nps) \<and> x (snd nps) \<le> 960 - 24 \<Longrightarrow>
     24 \<le> x (snd (push_apart nps)) \<and> x (snd (push_apart nps)) \<le> 960 - 24"
  by (simp_all add: push_apart_def Let_def clamp_def ARENA_WIDTH_def)

lemma apply_hits_fields [simp]:
  "attacking (fst (apply_hits nps)) = attacking (fst nps)"
  "attacking (snd (apply_hits nps)) = attacking (snd nps)"
  "attackTimer (fst (apply_hits nps)) = attackTimer (fst nps)"
  "attackTimer (snd (apply_hits nps)) = attackTimer (snd nps)"
  "x (fst (apply_hits nps)) = x (fst nps)"
  "x (snd (apply_hits nps)) = x (snd nps)"
  by (simp_all add: apply_hits_def Let_def)

lemma apply_hits_hp:
  "0 \<le> hp (fst nps) \<and> hp (fst nps) \<le> 100 \<Longrightarrow>
     0 \<le> hp (fst (apply_hits nps)) \<and> hp (fst (apply_hits nps)) \<le> 100"
  "0 \<le> hp (snd nps) \<and> hp (snd nps) \<le> 100 \<Longrightarrow>
     0 \<le> hp (snd (apply_hits nps)) \<and> hp (snd (apply_hits nps)) \<le> 100"
  by (simp_all add: apply_hits_def Let_def handleHit_hp)

lemma control_both_fighters:
  "fst (control_both k delta now rnd w) =
     resolveFacing (controlPlayer k delta (p1 w) CONTROLS_p1 now)
                   (controlPlayer k delta (p2 w) CONTROLS_p2 now)"
  by (simp add: control_both_def controlAI_def Let_def split: prod.splits)

lemma control_both_keys:
  "snd (control_both k delta now rnd w) =
     (if mode w = PvP then k
      else k ++ synth_keys k (DIFFICULTY (difficulty w)) rnd (p2 w) (p1 w) now)"
  by (simp add: control_both_def controlAI_def Let_def split: prod.splits)

lemma tick_inactive:
  "paused w \<or> roundOver w \<or> matchWinner w \<noteq> None \<Longrightarrow> tick uf delta now rnd (w, k) = (w, k)"
  by (simp add: tick_def)

lemma tick_fighters:
  assumes "\<not> (paused w \<or> roundOver w \<or> matchWinner w \<noteq> None)"
  shows "p1 (fst (tick uf delta now rnd (w, k))) =
           fst (push_apart (apply_hits (fst (control_both k delta now rnd w))))"
    and "p2 (fst (tick uf delta now rnd (w, k))) =
           snd (push_apart (apply_hits (fst (control_both k delta now rnd w))))"
  using assms
  by (simp_all add: tick_def Let_def round_end_def split: prod.splits option.splits)

lemma tick_keys:
  "\<not> (paused w \<or> roundOver w \<or> matchWinner w \<noteq> None) \<Longrightarrow>
   snd (tick uf delta now rnd (w, k)) = snd (control_both k delta now rnd w)"
  by (simp add: tick_def Let_def split: prod.splits)

lemma tick_round:
  fixes w uf delta now rnd k
  assumes "\<not> paused w" and "\<not> roundOver w" and "matchWinner w = None"
  defines "w' \<equiv> fst (tick uf delta now rnd (w, k))"
  defines "timeup \<equiv> (if delta > 0 then snd (countdown (timer w) delta (p1 w) (p2 w)) else None)"
  shows "timer w' = (if delta > 0 then fst (countdown (timer w) delta (p1 w) (p2 w)) else timer w)"
    and "roundOver w' = (timeup \<noteq> None \<or> check_KO (p1 w') (p2 w') \<noteq> None)"
    and "winnerRound w' =
          (if uf then (case check_KO (p1 w') (p2 w') of Some s \<Rightarrow> Some s
                       | None \<Rightarrow> (case timeup of Some v \<Rightarrow> v | None \<Rightarrow> winnerRound w))
           else (case timeup of Some v \<Rightarrow> v
                 | None \<Rightarrow> (case check_KO (p1 w') (p2 w') of Some s \<Rightarrow> Some s
                             | None \<Rightarrow> winnerRound w)))"
  using assms(1-3) unfolding w'_def timeup_def
  by (simp_all add: tick_def Let_def round_end_def split: prod.splits option.splits)

lemma tick_timer_inv:
  assumes "timer_inv (p1 w)" and "timer_inv (p2 w)"
  shows "timer_inv (p1 (fst (tick uf delta now rnd (w, k)))) \<and>
         timer_inv (p2 (fst (tick uf delta now rnd (w, k))))"
proof (cases "paused w \<or> roundOver w \<or> matchWinner w \<noteq> None")
  case True
  then show ?thesis using assms by (simp add: tick_inactive)
next
  case False
  have "timer_inv (controlPlayer k delta (p1 w) CONTROLS_p1 now)"
    and "timer_inv (controlPlayer k delta (p2 w) CONTROLS_p2 now)"
    using assms by (simp_all add: controlPlayer_timer_inv)
  then show ?thesis
    by (simp add: tick_fighters [OF False] control_both_fighters timer_inv_def)
qed

lemma nextRound_click_timer_inv:
  "timer_inv (p1 w) \<and> timer_inv (p2 w) \<Longrightarrow>
     timer_inv (p1 (nextRound_click w)) \<and> timer_inv (p2 (nextRound_click w))"
  by (simp add: nextRound_click_def Let_def timer_inv_def)

lemma nextRound_timeout_timer_inv:
  "timer_inv (p1 (nextRound_timeout wr c1 c2 w)) \<and> timer_inv (p2 (nextRound_timeout wr c1 c2 w))"
  by (simp add: nextRound_timeout_def Let_def timer_inv_def createFighter_def)

lemma reachable_timer_inv: "reachable w \<Longrightarrow> timer_inv (p1 w) \<and> timer_inv (p2 w)"
proof (induction rule: reachable.induct)
  case reach_init
  show ?case by (simp add: initial_world_def)
next
  case (reach_tick w updaterFirst delta now rnd k)
  then show ?case by (simp add: tick_timer_inv)
next
  case (reach_click w)
  then show ?case by (simp add: nextRound_click_timer_inv)
next
  case (reach_timeout w wr c1 c2)
  show ?case by (rule nextRound_timeout_timer_inv)
next
  case (reach_resetMatch w)
  show ?case by (simp add: resetMatch_def)
qed simp_all

subsection \<open>Concrete frames\<close>

lemmas step_defs = controlPlayer_def update_animation_timers_def integrate_physics_def
  attacks_def jump_def horizontal_def blocking_def

lemma last_frame_fields [simp]:
  "p1 (last_frame f1 f2) = f1" "p2 (last_frame f1 f2) = f2"
  "\<not> paused (last_frame f1 f2)" "\<not> roundOver (last_frame f1 f2)"
  "matchWinner (last_frame f1 f2) = None" "timer (last_frame f1 f2) = 0.01"
  by (simp_all add: last_frame_def initial_world_def)

lemma hit_by_p1:
  assumes "6 \<le> h2" and "h2 \<le> 100"
  shows "p1 (fst (tick uf 16 1000 rnd
            (last_frame (airborne_attacker\<lparr>hp := h1\<rparr>) (standing_defender\<lparr>hp := h2\<rparr>), Map.empty))) =
          airborne_attacker\<lparr>hp := h1, y := 300.7, vy := 0.7, attackTimer := 88\<rparr>"
    and "p2 (fst (tick uf 16 1000 rnd
            (last_frame (airborne_attacker\<lparr>hp := h1\<rparr>) (standing_defender\<lparr>hp := h2\<rparr>), Map.empty))) =
          standing_defender\<lparr>hp := h2 - 6, hitflash := 160, vx := 2.2\<rparr>"
proof -
  let ?w = "last_frame (airborne_attacker\<lparr>hp := h1\<rparr>) (standing_defender\<lparr>hp := h2\<rparr>)"
  let ?a = "airborne_attacker\<lparr>hp := h1, y := 300.7, vy := 0.7, attackTimer := 88\<rparr>"
  have act: "\<not> (paused ?w \<or> roundOver ?w \<or> matchWinner ?w \<noteq> None)"
    by simp
  have c1: "controlPlayer Map.empty 16 (airborne_attacker\<lparr>hp := h1\<rparr>) CONTROLS_p1 1000 = ?a"
    by (simp add: step_defs airborne_attacker_def createFighter_def pressed_def CONTROLS_p1_def
        game_constants clamp_def)
  have c2: "controlPlayer Map.empty 16 (standing_defender\<lparr>hp := h2\<rparr>) CONTROLS_p2 1000 =
              standing_defender\<lparr>hp := h2\<rparr>"
    by (simp add: step_defs standing_defender_def createFighter_def pressed_def CONTROLS_p2_def
        game_constants clamp_def)
  have m: "fst (control_both Map.empty 16 1000 rnd ?w) = (?a, standing_defender\<lparr>hp := h2\<rparr>)"
    by (simp add: control_both_fighters c1 c2 resolveFacing_def)
      (simp add: airborne_attacker_def standing_defender_def createFighter_def)
  have h: "apply_hits (?a, standing_defender\<lparr>hp := h2\<rparr>) =
             (?a, standing_defender\<lparr>hp := h2 - 6, hitflash := 160, vx := 2.2\<rparr>)"
    using assms
    by (simp add: apply_hits_def handleHit_def connects_def getAttackHitbox_def rectsOverlap_def
        airborne_attacker_def standing_defender_def createFighter_def dmg_values kb_values
        clamp_def FLOOR_Y_def)
  have a: "push_apart (?a, standing_defender\<lparr>hp := h2 - 6, hitflash := 160, vx := 2.2\<rparr>) =
             (?a, standing_defender\<lparr>hp := h2 - 6, hitflash := 160, vx := 2.2\<rparr>)"
    by (simp add: push_apart_def airborne_attacker_def standing_defender_def createFighter_def)
  show "p1 (fst (tick uf 16 1000 rnd (?w, Map.empty))) = ?a"
    "p2 (fst (tick uf 16 1000 rnd (?w, Map.empty))) =
       standing_defender\<lparr>hp := h2 - 6, hitflash := 160, vx := 2.2\<rparr>"
    using a h by (simp_all add: tick_fighters [OF act] m)
qed

lemma hit_by_p2:
  assumes "6 \<le> h1" and "h1 \<le> 100"
  shows "p1 (fst (tick uf 16 1000 rnd
            (last_frame (standing_defender_p1\<lparr>hp := h1\<rparr>) (airborne_attacker_p2\<lparr>hp := h2\<rparr>), Map.empty))) =
          standing_defender_p1\<lparr>hp := h1 - 6, hitflash := 160, vx := - 2.2\<rparr>"
    and "p2 (fst (tick uf 16 1000 rnd
            (last_frame (standing_defender_p1\<lparr>hp := h1\<rparr>) (airborne_attacker_p2\<lparr>hp := h2\<rparr>), Map.empty))) =
          airborne_attacker_p2\<lparr>hp := h2, y := 300.7, vy := 0.7, attackTimer := 88\<rparr>"
proof -
  let ?w = "last_frame (standing_defender_p1\<lparr>hp := h1\<rparr>) (airborne_attacker_p2\<lparr>hp := h2\<rparr>)"
  let ?a = "airborne_attacker_p2\<lparr>hp := h2, y := 300.7, vy := 0.7, attackTimer := 88\<rparr>"
  have act: "\<not> (paused ?w \<or> roundOver ?w \<or> matchWinner ?w \<noteq> None)"
    by simp
  have c2: "controlPlayer Map.empty 16 (airborne_attacker_p2\<lparr>hp := h2\<rparr>) CONTROLS_p2 1000 = ?a"
    by (simp add: step_defs airborne_attacker_p2_def createFighter_def pressed_def CONTROLS_p2_def
        game_constants clamp_def)
  have c1: "controlPlayer Map.empty 16 (standing_defender_p1\<lparr>hp := h1\<rparr>) CONTROLS_p1 1000 =
              standing_defender_p1\<lparr>hp := h1\<rparr>"
    by (simp add: step_defs standing_defender_p1_def createFighter_def pressed_def CONTROLS_p1_def
        game_constants clamp_def)
  have m: "fst (control_both Map.empty 16 1000 rnd ?w) = (standing_defender_p1\<lparr>hp := h1\<rparr>, ?a)"
    by (simp add: control_both_fighters c1 c2 resolveFacing_def)
      (simp add: airborne_attacker_p2_def standing_defender_p1_def createFighter_def)
  have h: "apply_hits (standing_defender_p1\<lparr>hp := h1\<rparr>, ?a) =
             (standing_defender_p1\<lparr>hp := h1 - 6, hitflash := 160, vx := - 2.2\<rparr>, ?a)"
    using assms
    by (simp add: apply_hits_def handleHit_def connects_def getAttackHitbox_def rectsOverlap_def
        airborne_attacker_p2_def standing_defender_p1_def createFighter_def dmg_values kb_values
        clamp_def FLOOR_Y_def)
  have a: "push_apart (standing_defender_p1\<lparr>hp := h1 - 6, hitflash := 160, vx := - 2.2\<rparr>, ?a) =
             (standing_defender_p1\<lparr>hp := h1 - 6, hitflash := 160, vx := - 2.2\<rparr>, ?a)"
    by (simp add: push_apart_def airborne_attacker_p2_def standing_defender_p1_def createFighter_def)
  show "p1 (fst (tick uf 16 1000 rnd (?w, Map.empty))) =
          standing_defender_p1\<lparr>hp := h1 - 6, hitflash := 160, vx := - 2.2\<rparr>"
    "p2 (fst (tick uf 16 1000 rnd (?w, Map.empty))) = ?a"
    using a h by (simp_all add: tick_fighters [OF act] m)
qed


lemma last_frame_round:
  "timer (fst (tick uf 16 1000 rnd (last_frame f1 f2, k))) = 0"
  "roundOver (fst (tick uf 16 1000 rnd (last_frame f1 f2, k)))"
  "winnerRound (fst (tick False 16 1000 rnd (last_frame f1 f2, k))) =
     (if hp f1 = hp f2 then None else if hp f1 > hp f2 then Some Player1 else Some Player2)"
  "winnerRound (fst (tick True 16 1000 rnd (last_frame f1 f2, k))) =
     (case check_KO (p1 (fst (tick True 16 1000 rnd (last_frame f1 f2, k))))
                    (p2 (fst (tick True 16 1000 rnd (last_frame f1 f2, k)))) of
        Some s \<Rightarrow> Some s
      | None \<Rightarrow> (if hp f1 = hp f2 then None
                 else if hp f1 > hp f2 then Some Player1 else Some Player2))"
proof -
  have act: "\<not> paused (last_frame f1 f2)" "\<not> roundOver (last_frame f1 f2)"
    "matchWinner (last_frame f1 f2) = None"
    by simp_all
  note r = tick_round [OF act]
  show "timer (fst (tick uf 16 1000 rnd (last_frame f1 f2, k))) = 0"
    "roundOver (fst (tick uf 16 1000 rnd (last_frame f1 f2, k)))"
    "winnerRound (fst (tick False 16 1000 rnd (last_frame f1 f2, k))) =
       (if hp f1 = hp f2 then None else if hp f1 > hp f2 then Some Player1 else Some Player2)"
    "winnerRound (fst (tick True 16 1000 rnd (last_frame f1 f2, k))) =
       (case check_KO (p1 (fst (tick True 16 1000 rnd (last_frame f1 f2, k))))
                      (p2 (fst (tick True 16 1000 rnd (last_frame f1 f2, k)))) of
          Some s \<Rightarrow> Some s
        | None \<Rightarrow> (if hp f1 = hp f2 then None
                   else if hp f1 > hp f2 then Some Player1 else Some Player2))"
    by (auto simp: r countdown_def split: option.splits)
qed

text \<open>
  What \<^verbatim>\<open>nextRound\<close> makes of a state: both fighters fresh at their start positions,
  timer, \<^verbatim>\<open>roundOver\<close> and \<^verbatim>\<open>winnerRound\<close> reset, and the round counts as follows.
\<close>

lemma nextRound_result:
  "nextRound w =
     w\<lparr>p1 := createFighter 240 1 ''blue'',
       p2 := (createFighter 720 (- 1) ''amber'')
               \<lparr>rounds := (if winnerRound w = Some Player2 then rounds (p2 w) + 2 else rounds (p2 w))\<rparr>,
       timer := 60, roundOver := False, winnerRound := None,
       matchWinner :=
         checkChampion (if winnerRound w = Some Player1 then rounds (p1 w) + 1 else rounds (p1 w))
                       (if winnerRound w = Some Player2 then rounds (p2 w) + 1 else rounds (p2 w))\<rparr>"
  by (simp add: nextRound_def nextRound_timeout_def nextRound_click_def Let_def game_constants
      createFighter_def)

lemma nextRound_p1_rounds: "rounds (p1 (nextRound w)) = 0"
  by (simp add: nextRound_def nextRound_timeout_def Let_def createFighter_def)

lemma nextRound_p2_rounds:
  "rounds (p2 (nextRound w)) =
     (if winnerRound w = Some Player2 then rounds (p2 w) + 2 else rounds (p2 w))"
  by (simp add: nextRound_def nextRound_timeout_def nextRound_click_def Let_def createFighter_def)

lemma initial_synth_all:
  "synth_keys Map.empty (DIFFICULTY Normal) sample_rolls (p2 initial_world) (p1 initial_world) 1000 =
     [''ArrowLeft'' \<mapsto> True, ''ArrowRight'' \<mapsto> False, ''ArrowUp'' \<mapsto> False,
      ''ArrowDown'' \<mapsto> False, ''Numpad1'' \<mapsto> False, ''Numpad2'' \<mapsto> False,
      ''Numpad3'' \<mapsto> False]"
  by (rule ext)
    (simp add: synth_keys_def DIFFICULTY_def sample_rolls_def initial_world_def createFighter_def
      CONTROLS_p2_def ARENA_WIDTH_def Let_def)

lemma first_frame_keys:
  "snd (tick uf 16 1000 sample_rolls (initial_world, Map.empty)) =
     [''ArrowLeft'' \<mapsto> True, ''ArrowRight'' \<mapsto> False, ''ArrowUp'' \<mapsto> False,
      ''ArrowDown'' \<mapsto> False, ''Numpad1'' \<mapsto> False, ''Numpad2'' \<mapsto> False,
      ''Numpad3'' \<mapsto> False]"
proof -
  have act: "\<not> (paused initial_world \<or> roundOver initial_world \<or> matchWinner initial_world \<noteq> None)"
    by (simp add: initial_world_def)
  have m: "mode initial_world = PvAI" "difficulty initial_world = Normal"
    by (simp_all add: initial_world_def)
  show ?thesis
    by (simp add: tick_keys [OF act] control_both_keys m initial_synth_all)
qed

lemma cp_idle:
  "controlPlayer Map.empty 16 (createFighter 240 1 ''blue'') CONTROLS_p1 1000 = createFighter 240 1 ''blue''"
  "controlPlayer Map.empty 16 (createFighter 720 (- 1) ''amber'') CONTROLS_p2 1000 = createFighter 720 (- 1) ''amber''"
  by (simp_all add: step_defs createFighter_def pressed_def game_constants clamp_def)

lemma first_frame_fighters:
  "p1 (fst (tick uf 16 1000 sample_rolls (initial_world, Map.empty))) = createFighter 240 1 ''blue''"
  "p2 (fst (tick uf 16 1000 sample_rolls (initial_world, Map.empty))) = createFighter 720 (- 1) ''amber''"
proof -
  have act: "\<not> (paused initial_world \<or> roundOver initial_world \<or> matchWinner initial_world \<noteq> None)"
    by (simp add: initial_world_def)
  have i: "p1 initial_world = createFighter 240 1 ''blue''"
    "p2 initial_world = createFighter 720 (- 1) ''amber''"
    by (simp_all add: initial_world_def ARENA_WIDTH_def)
  have m: "fst (control_both Map.empty 16 1000 sample_rolls initial_world) =
      (createFighter 240 1 ''blue'', createFighter 720 (- 1) ''amber'')"
    by (simp add: control_both_fighters i cp_idle) (simp add: resolveFacing_def createFighter_def)
  have h: "apply_hits (createFighter 240 1 ''blue'', createFighter 720 (- 1) ''amber'') =
      (createFighter 240 1 ''blue'', createFighter 720 (- 1) ''amber'')"
    by (simp add: apply_hits_def handleHit_not_attacking createFighter_def)
  have a: "push_apart (createFighter 240 1 ''blue'', createFighter 720 (- 1) ''amber'') =
      (createFighter 240 1 ''blue'', createFighter 720 (- 1) ''amber'')"
    by (simp add: push_apart_def createFighter_def)
  show "p1 (fst (tick uf 16 1000 sample_rolls (initial_world, Map.empty))) = createFighter 240 1 ''blue''"
    "p2 (fst (tick uf 16 1000 sample_rolls (initial_world, Map.empty))) = createFighter 720 (- 1) ''amber''"
    by (simp_all add: tick_fighters [OF act] m h a)
qed

lemma first_frame_flags:
  "\<not> paused (fst (tick True 16 1000 sample_rolls (initial_world, Map.empty)))"
  "\<not> roundOver (fst (tick True 16 1000 sample_rolls (initial_world, Map.empty)))"
  "matchWinner (fst (tick True 16 1000 sample_rolls (initial_world, Map.empty))) = None"
proof -
  have act: "\<not> paused initial_world" "\<not> roundOver initial_world" "matchWinner initial_world = None"
    by (simp_all add: initial_world_def)
  have t: "snd (countdown (timer initial_world) 16 (p1 initial_world) (p2 initial_world)) = None"
    by (simp add: countdown_def initial_world_def ROUND_TIME_def)
  have k: "check_KO (createFighter 240 1 ''blue'') (createFighter 720 (- 1) ''amber'') = None"
    by (simp add: check_KO_def createFighter_def)
  show "\<not> roundOver (fst (tick True 16 1000 sample_rolls (initial_world, Map.empty)))"
    by (simp add: tick_round [OF act] t k first_frame_fighters)
  show "\<not> paused (fst (tick True 16 1000 sample_rolls (initial_world, Map.empty)))"
    "matchWinner (fst (tick True 16 1000 sample_rolls (initial_world, Map.empty))) = None"
    by (simp_all add: tick_def Let_def round_end_def initial_world_def split: prod.splits option.splits)
qed

section \<open>The claims\<close>

subsection \<open>Next round\<close>

text \<open>
  Claim C1 says that the next-round action adds exactly one to the round winner's
  \<^verbatim>\<open>rounds\<close> and resets both fighters while keeping both counts.  The source adds one
  at the click and then, in the timeout, replaces player 1 by a fresh fighter (count 0)
  and adds one to player 2's count a second time: after player 1 wins the first round
  its count is still 0, and after player 2 wins the first round its count is 2.
\<close>

theorem nextRound_miscounts_rounds:
  "roundOver round_won_by_p1 \<and> winnerRound round_won_by_p1 = Some Player1 \<and>
   rounds (p1 round_won_by_p1) = 0 \<and>
   rounds (p1 (nextRound round_won_by_p1)) = 0 \<and>
   roundOver round_won_by_p2 \<and> winnerRound round_won_by_p2 = Some Player2 \<and>
   rounds (p2 round_won_by_p2) = 0 \<and>
   rounds (p2 (nextRound round_won_by_p2)) = 2"
  by (simp add: nextRound_p1_rounds nextRound_p2_rounds)
    (simp add: round_won_by_p1_def round_won_by_p2_def initial_world_def createFighter_def)

subsection \<open>Attacking and blocking\<close>

text \<open>
  Claim C2 says that after a simulation step a fighter never has \<^verbatim>\<open>attacking\<close> and
  \<^verbatim>\<open>block\<close> both true.  The step sets \<^verbatim>\<open>block\<close> from the down key whatever the attack
  state is, and only the start of a new attack looks at it: player 1 presses J in one
  frame and S in the next, and is then attacking and blocking.
\<close>

theorem attacking_and_block_counterexample:
  "attacking (controlPlayer [''s'' \<mapsto> True] 16
      (controlPlayer [''j'' \<mapsto> True] 16 (createFighter 240 1 ''blue'') CONTROLS_p1 1000)
      CONTROLS_p1 1016) \<and>
   block (controlPlayer [''s'' \<mapsto> True] 16
      (controlPlayer [''j'' \<mapsto> True] 16 (createFighter 240 1 ''blue'') CONTROLS_p1 1000)
      CONTROLS_p1 1016)"
  by (simp add: controlPlayer_attack_fields spec_candidate_def spec_intent_def spec_duration_def
      pressed_def CONTROLS_p1_def createFighter_def)

text \<open>
  Claim C2, amended: a fighter that was not attacking before the step is never both
  attacking and blocking after it, since no attack starts while the down key is held;
  a fighter that is in an attack whose timer outlasts the frame and holds the down key is
  both attacking and blocking after the step.
\<close>

theorem block_excludes_new_attack:
  "(\<not> attacking f \<longrightarrow>
      \<not> (attacking (controlPlayer k delta f control now) \<and>
         block (controlPlayer k delta f control now))) \<and>
   (attacking f \<and> attackTimer f - delta > 0 \<and> pressed k (down control) \<longrightarrow>
      attacking (controlPlayer k delta f control now) \<and>
      block (controlPlayer k delta f control now))"
  by (auto simp: controlPlayer_attack_fields spec_candidate_def split: option.splits if_splits)

theorem block_excludes_new_attack_witness:
  "\<not> attacking (createFighter 240 1 ''blue'') \<and>
   block (controlPlayer [''s'' \<mapsto> True, ''j'' \<mapsto> True] 16 (createFighter 240 1 ''blue'')
            CONTROLS_p1 1000) \<and>
   \<not> attacking (controlPlayer [''s'' \<mapsto> True, ''j'' \<mapsto> True] 16 (createFighter 240 1 ''blue'')
            CONTROLS_p1 1000)"
  using block_excludes_new_attack
    [of "createFighter 240 1 ''blue''" "[''s'' \<mapsto> True, ''j'' \<mapsto> True]" 16 CONTROLS_p1 1000]
  by (simp add: createFighter_def pressed_def CONTROLS_p1_def)

subsection \<open>Attack initiation\<close>

text \<open>
  Claim C4: an attack starts in a step only when the fighter is not attacking, not blocking
  and can act; the types are tried in the order special, heavy, light and the first wanted
  type whose cooldown timestamp is at most \<open>now\<close> starts, with \<^verbatim>\<open>attacking\<close> true, that
  type, the timer 120/180/240 ms and the cooldown \<open>now\<close> + 350/700/2200 ms.  The attack
  block of the step is the specification's search.  For the whole step, which also runs
  the timer decay on the new attack: the cooldown of the chosen type is the new one, the
  timer is the duration less the frame's \<open>delta\<close>, and when nothing is chosen no cooldown
  changes and no attack begins.  A wanted type whose cooldown timestamp exceeds \<open>now\<close> is
  never the chosen one, keeps its timestamp, and a fighter that was not attacking is not
  attacking with that type afterwards.
\<close>

theorem attack_initiation_priority:
  "attacks k control now nx = spec_initiate k control now nx \<and>
   (let f' = controlPlayer k delta f control now;
        c = spec_candidate k control now (f\<lparr>block := pressed k (down control)\<rparr>)
    in (case c of
          Some ty \<Rightarrow>
            cooldowns f' = (cooldowns f)(ty := now + spec_cooldown ty) \<and>
            attackTimer f' = spec_duration ty - delta \<and>
            attacking f' = (spec_duration ty - delta > 0)
        | None \<Rightarrow> cooldowns f' = cooldowns f \<and> (attacking f' \<longrightarrow> attacking f)) \<and>
       (\<forall>ty. spec_intent k control ty \<and> now < cooldowns f ty \<longrightarrow>
          c \<noteq> Some ty \<and> cooldowns f' ty = cooldowns f ty \<and>
          (\<not> attacking f \<longrightarrow> \<not> (attacking f' \<and> attackType f' = Some ty))))"
proof -
  define c where "c = spec_candidate k control now (f\<lparr>block := pressed k (down control)\<rparr>)"
  define f' where "f' = controlPlayer k delta f control now"
  note flds = controlPlayer_attack_fields [of k delta f control now, folded c_def f'_def]
  have step: "case c of
          Some ty \<Rightarrow>
            cooldowns f' = (cooldowns f)(ty := now + spec_cooldown ty) \<and>
            attackTimer f' = spec_duration ty - delta \<and>
            attacking f' = (spec_duration ty - delta > 0)
        | None \<Rightarrow> cooldowns f' = cooldowns f \<and> (attacking f' \<longrightarrow> attacking f)"
    by (simp add: flds split: option.splits)
  have cooled: "c \<noteq> Some ty \<and> cooldowns f' ty = cooldowns f ty \<and>
          (\<not> attacking f \<longrightarrow> \<not> (attacking f' \<and> attackType f' = Some ty))"
    if "spec_intent k control ty \<and> now < cooldowns f ty" for ty
  proof -
    have ne: "c \<noteq> Some ty"
      using that spec_candidate_SomeD [of k control now "f\<lparr>block := pressed k (down control)\<rparr>" ty]
      by (auto simp: c_def)
    then show ?thesis
      by (cases c) (auto simp: flds split: if_splits)
  qed
  show ?thesis
    unfolding Let_def c_def [symmetric] f'_def [symmetric]
    using step cooled attacks_refines by blast
qed


theorem attack_initiation_priority_witness:
  "spec_intent [''u'' \<mapsto> True, ''j'' \<mapsto> True] CONTROLS_p1 Special \<and>
   1000 < cooldowns special_on_cooldown Special \<and>
   spec_candidate [''u'' \<mapsto> True, ''j'' \<mapsto> True] CONTROLS_p1 1000
     (special_on_cooldown\<lparr>block := pressed [''u'' \<mapsto> True, ''j'' \<mapsto> True] (down CONTROLS_p1)\<rparr>)
     = Some Light \<and>
   attacks [''u'' \<mapsto> True, ''j'' \<mapsto> True] CONTROLS_p1 1000 special_on_cooldown =
     special_on_cooldown\<lparr>attacking := True, attackType := Some Light, attackTimer := 120,
        cooldowns := (cooldowns special_on_cooldown)(Light := 1350)\<rparr> \<and>
   attacking (controlPlayer [''u'' \<mapsto> True, ''j'' \<mapsto> True] 16 special_on_cooldown CONTROLS_p1 1000) \<and>
   attackTimer (controlPlayer [''u'' \<mapsto> True, ''j'' \<mapsto> True] 16 special_on_cooldown CONTROLS_p1 1000)
     = 104 \<and>
   cooldowns (controlPlayer [''u'' \<mapsto> True, ''j'' \<mapsto> True] 16 special_on_cooldown CONTROLS_p1 1000)
     Special = 2000 \<and>
   cooldowns (controlPlayer [''u'' \<mapsto> True, ''j'' \<mapsto> True] 16 special_on_cooldown CONTROLS_p1 1000)
     Light = 1350"
proof -
  have c: "spec_candidate [''u'' \<mapsto> True, ''j'' \<mapsto> True] CONTROLS_p1 1000
     (special_on_cooldown\<lparr>block := pressed [''u'' \<mapsto> True, ''j'' \<mapsto> True] (down CONTROLS_p1)\<rparr>)
     = Some Light"
    by (simp add: spec_candidate_def spec_intent_def special_on_cooldown_def createFighter_def
        pressed_def CONTROLS_p1_def)
  have c': "spec_candidate [''u'' \<mapsto> True, ''j'' \<mapsto> True] CONTROLS_p1 1000 special_on_cooldown
     = Some Light"
    by (simp add: spec_candidate_def spec_intent_def special_on_cooldown_def createFighter_def
        pressed_def CONTROLS_p1_def)
  have i: "spec_intent [''u'' \<mapsto> True, ''j'' \<mapsto> True] CONTROLS_p1 Special"
    by (simp add: spec_intent_def pressed_def CONTROLS_p1_def)
  have cd: "cooldowns special_on_cooldown Special = 2000"
    by (simp add: special_on_cooldown_def)
  show ?thesis
    using attack_initiation_priority
      [of "[''u'' \<mapsto> True, ''j'' \<mapsto> True]" CONTROLS_p1 1000 special_on_cooldown 16
          special_on_cooldown]
    by (simp add: c c' i cd Let_def spec_initiate_def spec_duration_def spec_cooldown_def)
qed

subsection \<open>Damage, flash and knockback of a connecting hit\<close>

text \<open>
  The blocked damage is \<^verbatim>\<open>Math.ceil(baseDmg * (1 - 0.65))\<close>.  The three products are
  2.1, 4.2 and 6.3, none of them within rounding distance of a whole number, so the
  ceiling of the real product is the ceiling of the double.

  Claim C5: when a hit connects (the attacker is attacking with more than 40 ms left and
  the hitbox meets the hurtbox), the damage is 6, 12 or 18 by type, or that amount times
  0.35 rounded up when the defender blocks, which is never more; the defender's hp is the
  old hp less the damage, clamped into [0, 100]; \<^verbatim>\<open>blockflash\<close> when blocking and
  \<^verbatim>\<open>hitflash\<close> otherwise becomes 160 and the other one is unchanged; \<^verbatim>\<open>vx\<close> is
  shifted by 2.2, 3.2 or 4 in the attacker's facing direction.  A defender with hp 100
  hit by a light attack ends at 94 with \<^verbatim>\<open>hitflash\<close> 160, or at 97 with
  \<^verbatim>\<open>blockflash\<close> 160 when blocking.
\<close>

theorem connecting_hit_damage:
  assumes "attacking a" and "attackType a = Some ty" and "attackTimer a > 40"
    and "connects a ty d"
  shows "let base = (case ty of Light \<Rightarrow> 6 | Heavy \<Rightarrow> 12 | Special \<Rightarrow> 18);
             amount = (if block d then of_int \<lceil>base * 0.35\<rceil> else base);
             knock = (case ty of Light \<Rightarrow> 2.2 | Heavy \<Rightarrow> 3.2 | Special \<Rightarrow> 4);
             d' = handleHit a d
         in amount \<le> base \<and>
            hp d' = max 0 (min 100 (hp d - amount)) \<and>
            0 \<le> hp d' \<and> hp d' \<le> 100 \<and>
            (block d \<longrightarrow> blockflash d' = 160 \<and> hitflash d' = hitflash d) \<and>
            (\<not> block d \<longrightarrow> hitflash d' = 160 \<and> blockflash d' = blockflash d) \<and>
            vx d' = vx d + knock * (if facing a = 1 then 1 else - 1) \<and>
            (facing a = 1 \<or> facing a = - 1 \<longrightarrow> vx d' = vx d + knock * of_int (facing a)) \<and>
            (ty = Light \<and> hp d = 100 \<and> \<not> block d \<longrightarrow> hp d' = 94 \<and> hitflash d' = 160) \<and>
            (ty = Light \<and> hp d = 100 \<and> block d \<longrightarrow> hp d' = 97 \<and> blockflash d' = 160)"
  unfolding handleHit_connecting_eq [OF assms] Let_def
  by (cases ty) (auto simp: dmg_values kb_values clamp_def)

theorem connecting_hit_damage_witness:
  "attacking airborne_attacker \<and> attackType airborne_attacker = Some Light \<and>
   attackTimer airborne_attacker > 40 \<and>
   connects airborne_attacker Light standing_defender \<and>
   hp standing_defender = 100 \<and>
   hp (handleHit airborne_attacker standing_defender) = 94 \<and>
   hitflash (handleHit airborne_attacker standing_defender) = 160 \<and>
   blockflash (handleHit airborne_attacker standing_defender) = 0 \<and>
   vx (handleHit airborne_attacker standing_defender) = 2.2 \<and>
   hp (handleHit airborne_attacker (standing_defender\<lparr>block := True\<rparr>)) = 97 \<and>
   blockflash (handleHit airborne_attacker (standing_defender\<lparr>block := True\<rparr>)) = 160 \<and>
   hitflash (handleHit airborne_attacker (standing_defender\<lparr>block := True\<rparr>)) = 0"
proof -
  have a: "attacking airborne_attacker" "attackType airborne_attacker = Some Light"
    "attackTimer airborne_attacker > 40" "facing airborne_attacker = 1"
    by (simp_all add: airborne_attacker_def createFighter_def)
  have d: "hp standing_defender = 100" "\<not> block standing_defender" "vx standing_defender = 0"
    "blockflash standing_defender = 0" "hitflash standing_defender = 0"
    by (simp_all add: standing_defender_def createFighter_def)
  show ?thesis
    using connecting_hit_damage [OF a(1-3) airborne_attacker_connects]
      connecting_hit_damage [OF a(1-3) airborne_attacker_connects_blocking]
    by (simp add: a d Let_def airborne_attacker_connects)
qed

subsection \<open>The active window of an attack\<close>

text \<open>
  Claim C9: unless the attacker is attacking with \<^verbatim>\<open>attackTimer\<close> above 40 ms, hit
  resolution returns the defender as it is: no damage, no flash, no knockback.
\<close>

theorem inactive_attack_leaves_defender:
  "\<not> (attacking a \<and> attackTimer a > 40) \<Longrightarrow> handleHit a d = d"
  by (auto simp: handleHit_def split: option.splits)

theorem inactive_attack_leaves_defender_witness:
  "\<not> (attacking (airborne_attacker\<lparr>attackTimer := 40\<rparr>) \<and>
      attackTimer (airborne_attacker\<lparr>attackTimer := 40\<rparr>) > 40) \<and>
   connects (airborne_attacker\<lparr>attackTimer := 40\<rparr>) Light standing_defender \<and>
   handleHit (airborne_attacker\<lparr>attackTimer := 40\<rparr>) standing_defender = standing_defender \<and>
   handleHit airborne_attacker standing_defender \<noteq> standing_defender"
proof -
  have c: "connects (airborne_attacker\<lparr>attackTimer := 40\<rparr>) Light standing_defender"
    by (simp add: airborne_attacker_def standing_defender_def connects_def createFighter_def
        getAttackHitbox_def rectsOverlap_def FLOOR_Y_def)
  have a: "attacking airborne_attacker" "attackType airborne_attacker = Some Light"
    "attackTimer airborne_attacker > 40"
    by (simp_all add: airborne_attacker_def createFighter_def)
  have "hp (handleHit airborne_attacker standing_defender) = 94"
    unfolding handleHit_connecting_eq [OF a airborne_attacker_connects]
    by (simp add: standing_defender_def createFighter_def dmg_values clamp_def)
  then have n: "handleHit airborne_attacker standing_defender \<noteq> standing_defender"
    by (auto simp: standing_defender_def createFighter_def)
  show ?thesis
    using inactive_attack_leaves_defender
      [of "airborne_attacker\<lparr>attackTimer := 40\<rparr>" standing_defender] c n
    by auto
qed


subsection \<open>Bounds of hp and x\<close>

text \<open>
  Claim C3: from fighters with hp in [0, 100] and x in [24, 936], every fighter state that
  a frame produces, after the two steps and the facing correction, after hit resolution,
  after overlap separation, and as stored by the frame, has hp in [0, 100] and x in
  [24, 936].
\<close>

theorem tick_keeps_bounds:
  assumes "in_bounds (p1 w)" and "in_bounds (p2 w)"
  shows "let moved = fst (control_both k delta now rnd w);
             hit = apply_hits moved;
             apart = push_apart hit;
             w' = fst (tick uf delta now rnd (w, k))
         in in_bounds (fst moved) \<and> in_bounds (snd moved) \<and>
            in_bounds (fst hit) \<and> in_bounds (snd hit) \<and>
            in_bounds (fst apart) \<and> in_bounds (snd apart) \<and>
            in_bounds (p1 w') \<and> in_bounds (p2 w')"
proof -
  define moved where "moved = fst (control_both k delta now rnd w)"
  define hit where "hit = apply_hits moved"
  define apart where "apart = push_apart hit"
  have m: "in_bounds (fst moved)" "in_bounds (snd moved)"
    using controlPlayer_in_bounds [OF assms(1), of k delta CONTROLS_p1 now]
      controlPlayer_in_bounds [OF assms(2), of k delta CONTROLS_p2 now]
    by (simp_all add: moved_def control_both_fighters in_bounds_def)
  have h: "in_bounds (fst hit)" "in_bounds (snd hit)"
    using m apply_hits_hp [of moved] by (simp_all add: hit_def in_bounds_def)
  have a: "in_bounds (fst apart)" "in_bounds (snd apart)"
    using h push_apart_x [of hit] by (simp_all add: apart_def in_bounds_def)
  have t: "in_bounds (p1 (fst (tick uf delta now rnd (w, k))))"
    "in_bounds (p2 (fst (tick uf delta now rnd (w, k))))"
  proof (atomize (full), cases "paused w \<or> roundOver w \<or> matchWinner w \<noteq> None")
    case True
    then show "in_bounds (p1 (fst (tick uf delta now rnd (w, k)))) \<and>
      in_bounds (p2 (fst (tick uf delta now rnd (w, k))))"
      using assms by (simp add: tick_inactive)
  next
    case False
    show "in_bounds (p1 (fst (tick uf delta now rnd (w, k)))) \<and>
      in_bounds (p2 (fst (tick uf delta now rnd (w, k))))"
      using a by (simp add: tick_fighters [OF False] apart_def hit_def moved_def)
  qed
  show ?thesis
    unfolding Let_def using m h a t by (simp add: moved_def hit_def apart_def)
qed

theorem tick_keeps_bounds_witness:
  "in_bounds (p1 cornered) \<and> in_bounds (p2 cornered) \<and> x (p1 cornered) = 24 \<and>
   vx (p1 cornered) = - 5 \<and>
   in_bounds (p1 (fst (tick True 16 1000 sample_rolls (cornered, [''a'' \<mapsto> True])))) \<and>
   in_bounds (p2 (fst (tick True 16 1000 sample_rolls (cornered, [''a'' \<mapsto> True])))) \<and>
   x (fst (fst (control_both [''a'' \<mapsto> True] 16 1000 sample_rolls cornered))) = 24"
proof -
  have b: "in_bounds (p1 cornered)" "in_bounds (p2 cornered)"
    by (simp_all add: in_bounds_def cornered_def initial_world_def createFighter_def ARENA_WIDTH_def)
  have v: "x (p1 cornered) = 24" "vx (p1 cornered) = - 5"
    by (simp_all add: cornered_def)
  have "x (controlPlayer [''a'' \<mapsto> True] 16 (p1 cornered) CONTROLS_p1 1000) = 24"
    by (simp add: step_defs cornered_def initial_world_def createFighter_def pressed_def
        CONTROLS_p1_def game_constants clamp_def)
  then have c: "x (fst (fst (control_both [''a'' \<mapsto> True] 16 1000 sample_rolls cornered))) = 24"
    by (simp add: control_both_fighters)
  show ?thesis
    using tick_keeps_bounds [OF b, of "[''a'' \<mapsto> True]" 16 1000 sample_rolls True]
    by (simp add: b v c Let_def)
qed

subsection \<open>The keys after a frame against the computer\<close>

text \<open>
  Claim C6 says that the synthetic keys of the computer opponent are discarded after each
  frame, so that the key state holds what the keyboard events produced.  \<^verbatim>\<open>controlAI\<close>
  assigns the merged object to \<^verbatim>\<open>keysRef.current\<close> and nothing restores it: in the first
  frame of a match against the computer, with no key ever touched, the key state after
  the frame has \<^verbatim>\<open>ArrowLeft\<close> pressed.  When the mode is then switched to two players,
  the next frame reads that key and player 2 walks left, from 720 to 719.2, with still no
  key touched.
\<close>

theorem ai_keys_leak:
  "mode initial_world = PvAI \<and>
   \<not> pressed Map.empty ''ArrowLeft'' \<and>
   pressed (snd (tick True 16 1000 sample_rolls (initial_world, Map.empty))) ''ArrowLeft'' \<and>
   x (p2 (fst (tick True 16 1000 sample_rolls (initial_world, Map.empty)))) = 720 \<and>
   x (p2 (fst (tick True 16 1016 sample_rolls
        ((fst (tick True 16 1000 sample_rolls (initial_world, Map.empty)))\<lparr>mode := PvP\<rparr>,
         snd (tick True 16 1000 sample_rolls (initial_world, Map.empty)))))) = 719.2"
proof -
  let ?t = "tick True 16 1000 sample_rolls (initial_world, Map.empty)"
  let ?k = "[''ArrowLeft'' \<mapsto> True, ''ArrowRight'' \<mapsto> False, ''ArrowUp'' \<mapsto> False,
      ''ArrowDown'' \<mapsto> False, ''Numpad1'' \<mapsto> False, ''Numpad2'' \<mapsto> False,
      ''Numpad3'' \<mapsto> False]"
  have act: "\<not> (paused ((fst ?t)\<lparr>mode := PvP\<rparr>) \<or> roundOver ((fst ?t)\<lparr>mode := PvP\<rparr>) \<or>
      matchWinner ((fst ?t)\<lparr>mode := PvP\<rparr>) \<noteq> None)"
    by (simp add: first_frame_flags)
  have c: "controlPlayer ?k 16 (createFighter 720 (- 1) ''amber'') CONTROLS_p2 1016 =
             (createFighter 720 (- 1) ''amber'')\<lparr>x := 719.2, vx := - 0.8\<rparr>"
    "controlPlayer ?k 16 (createFighter 240 1 ''blue'') CONTROLS_p1 1016 = createFighter 240 1 ''blue''"
    by (simp_all add: step_defs createFighter_def pressed_def CONTROLS_p1_def CONTROLS_p2_def
        game_constants clamp_def)
  have m: "fst (control_both ?k 16 1016 sample_rolls ((fst ?t)\<lparr>mode := PvP\<rparr>)) =
      (createFighter 240 1 ''blue'', (createFighter 720 (- 1) ''amber'')\<lparr>x := 719.2, vx := - 0.8\<rparr>)"
    by (simp add: control_both_fighters first_frame_fighters c)
      (simp add: resolveFacing_def createFighter_def)
  have h: "apply_hits (createFighter 240 1 ''blue'',
                       (createFighter 720 (- 1) ''amber'')\<lparr>x := 719.2, vx := - 0.8\<rparr>) =
      (createFighter 240 1 ''blue'', (createFighter 720 (- 1) ''amber'')\<lparr>x := 719.2, vx := - 0.8\<rparr>)"
    by (simp add: apply_hits_def handleHit_not_attacking createFighter_def)
  have a: "push_apart (createFighter 240 1 ''blue'',
                       (createFighter 720 (- 1) ''amber'')\<lparr>x := 719.2, vx := - 0.8\<rparr>) =
      (createFighter 240 1 ''blue'', (createFighter 720 (- 1) ''amber'')\<lparr>x := 719.2, vx := - 0.8\<rparr>)"
    by (simp add: push_apart_def createFighter_def)
  have s: "x (snd (push_apart (apply_hits (fst (control_both ?k 16 1016 sample_rolls
              ((fst ?t)\<lparr>mode := PvP\<rparr>)))))) = 719.2"
    using a h by (simp add: m)
  show ?thesis
    by (simp add: tick_fighters [OF act] first_frame_keys first_frame_fighters s pressed_def)
      (simp add: initial_world_def createFighter_def)
qed

subsection \<open>The attack timer\<close>

text \<open>
  Claim C7: for every fighter of a state the game can reach, and for every fighter that a
  simulation step makes of one, \<^verbatim>\<open>attackTimer\<close> is positive exactly when
  \<^verbatim>\<open>attacking\<close> is true; and a step never returns a fighter, from any input, that is
  attacking with \<^verbatim>\<open>attackTimer\<close> at or below 0.
\<close>

theorem attack_timer_iff_attacking:
  assumes "reachable w" and "f = p1 w \<or> f = p2 w"
  shows "(attackTimer f > 0 \<longleftrightarrow> attacking f) \<and>
         (attackTimer (controlPlayer k delta f control now) > 0 \<longleftrightarrow>
            attacking (controlPlayer k delta f control now)) \<and>
         \<not> (attacking (controlPlayer k delta g control now) \<and>
            attackTimer (controlPlayer k delta g control now) \<le> 0)"
proof -
  have "timer_inv f"
    using assms reachable_timer_inv [of w] by auto
  moreover from this have "timer_inv (controlPlayer k delta f control now)"
    by (rule controlPlayer_timer_inv)
  moreover have "\<not> (attacking (controlPlayer k delta g control now) \<and>
            attackTimer (controlPlayer k delta g control now) \<le> 0)"
    using controlPlayer_attacking_timer [of k delta g control now] by auto
  ultimately show ?thesis by (simp add: timer_inv_def)
qed

theorem attack_timer_iff_attacking_witness:
  "reachable (fst (tick True 16 1000 sample_rolls (initial_world, [''j'' \<mapsto> True]))) \<and>
   attacking (p1 (fst (tick True 16 1000 sample_rolls (initial_world, [''j'' \<mapsto> True])))) \<and>
   attackTimer (p1 (fst (tick True 16 1000 sample_rolls (initial_world, [''j'' \<mapsto> True])))) = 104 \<and>
   \<not> attacking (p2 (fst (tick True 16 1000 sample_rolls (initial_world, [''j'' \<mapsto> True])))) \<and>
   attackTimer (p2 (fst (tick True 16 1000 sample_rolls (initial_world, [''j'' \<mapsto> True])))) = 0 \<and>
   attacking (controlPlayer Map.empty 16
     (p1 (fst (tick True 16 1000 sample_rolls (initial_world, [''j'' \<mapsto> True])))) CONTROLS_p1 1016) \<and>
   attackTimer (controlPlayer Map.empty 16
     (p1 (fst (tick True 16 1000 sample_rolls (initial_world, [''j'' \<mapsto> True])))) CONTROLS_p1 1016) = 88"
proof -
  let ?w = "fst (tick True 16 1000 sample_rolls (initial_world, [''j'' \<mapsto> True]))"
  have r: "reachable ?w"
    by (rule reach_tick [OF reach_init])
  have act: "\<not> (paused initial_world \<or> roundOver initial_world \<or> matchWinner initial_world \<noteq> None)"
    by (simp add: initial_world_def)
  have c1: "spec_candidate [''j'' \<mapsto> True] CONTROLS_p1 1000
              ((p1 initial_world)\<lparr>block := pressed [''j'' \<mapsto> True] (down CONTROLS_p1)\<rparr>) = Some Light"
    by (simp add: spec_candidate_def spec_intent_def initial_world_def createFighter_def
        pressed_def CONTROLS_p1_def)
  have c2: "spec_candidate [''j'' \<mapsto> True] CONTROLS_p2 1000
              ((p2 initial_world)\<lparr>block := pressed [''j'' \<mapsto> True] (down CONTROLS_p2)\<rparr>) = None"
    by (simp add: spec_candidate_def spec_intent_def initial_world_def createFighter_def
        pressed_def CONTROLS_p2_def)
  have p1: "attacking (p1 ?w)" "attackTimer (p1 ?w) = 104"
    by (simp_all add: tick_fighters [OF act] control_both_fighters controlPlayer_attack_fields c1
        spec_duration_def)
  have p2: "\<not> attacking (p2 ?w)" "attackTimer (p2 ?w) = 0"
    by (simp_all add: tick_fighters [OF act] control_both_fighters controlPlayer_attack_fields c2)
      (simp_all add: initial_world_def createFighter_def)
  have c3: "spec_candidate Map.empty CONTROLS_p1 1016
              ((p1 ?w)\<lparr>block := pressed Map.empty (down CONTROLS_p1)\<rparr>) = None"
    by (simp add: spec_candidate_def p1)
  have n: "attackTimer (controlPlayer Map.empty 16 (p1 ?w) CONTROLS_p1 1016) = 88"
    by (simp add: controlPlayer_attack_fields c3 p1)
  show ?thesis
    using attack_timer_iff_attacking [OF r, of "p1 ?w" Map.empty 16 CONTROLS_p1 1016]
      attack_timer_iff_attacking [OF r, of "p2 ?w"] r p1 p2 n
    by simp
qed

subsection \<open>Time up\<close>

text \<open>
  Claim C8 says that when the timer reaches 0 in an active round the round ends and the
  winner is the side with the higher hp, nobody on equal hp.  The timer updater compares
  the fighters of the render that created the frame callback, that is the hp before the
  frame, while the frame stores the fighters after its hits.  In the last frame of a
  round player 1 (hp 50) hits player 2 (hp 52): the round ends with hp 50 against 46 and
  player 2 as winner.  With player 1 at 46 the round ends level at 46 each and player 2
  is still named winner.  Both hold whichever way the updater is queued.
\<close>

theorem time_up_winner_from_stale_hp:
  "hp (p1 late_hit_frame) = 50 \<and> hp (p2 late_hit_frame) = 52 \<and>
   \<not> paused late_hit_frame \<and> \<not> roundOver late_hit_frame \<and> matchWinner late_hit_frame = None \<and>
   timer late_hit_frame - 16 / 1000 \<le> 0 \<and>
   roundOver (fst (tick True 16 1000 sample_rolls (late_hit_frame, Map.empty))) \<and>
   timer (fst (tick True 16 1000 sample_rolls (late_hit_frame, Map.empty))) = 0 \<and>
   hp (p1 (fst (tick True 16 1000 sample_rolls (late_hit_frame, Map.empty)))) = 50 \<and>
   hp (p2 (fst (tick True 16 1000 sample_rolls (late_hit_frame, Map.empty)))) = 46 \<and>
   winnerRound (fst (tick True 16 1000 sample_rolls (late_hit_frame, Map.empty))) = Some Player2 \<and>
   roundOver (fst (tick False 16 1000 sample_rolls (late_hit_frame, Map.empty))) \<and>
   timer (fst (tick False 16 1000 sample_rolls (late_hit_frame, Map.empty))) = 0 \<and>
   hp (p1 (fst (tick False 16 1000 sample_rolls (late_hit_frame, Map.empty)))) = 50 \<and>
   hp (p2 (fst (tick False 16 1000 sample_rolls (late_hit_frame, Map.empty)))) = 46 \<and>
   winnerRound (fst (tick False 16 1000 sample_rolls (late_hit_frame, Map.empty))) = Some Player2 \<and>
   hp (p1 late_level_frame) = 46 \<and> hp (p2 late_level_frame) = 52 \<and>
   hp (p1 (fst (tick True 16 1000 sample_rolls (late_level_frame, Map.empty)))) = 46 \<and>
   hp (p2 (fst (tick True 16 1000 sample_rolls (late_level_frame, Map.empty)))) = 46 \<and>
   winnerRound (fst (tick True 16 1000 sample_rolls (late_level_frame, Map.empty))) = Some Player2 \<and>
   hp (p1 (fst (tick False 16 1000 sample_rolls (late_level_frame, Map.empty)))) = 46 \<and>
   hp (p2 (fst (tick False 16 1000 sample_rolls (late_level_frame, Map.empty)))) = 46 \<and>
   winnerRound (fst (tick False 16 1000 sample_rolls (late_level_frame, Map.empty))) = Some Player2"
proof -
  have a: "hp (p1 (fst (tick uf 16 1000 sample_rolls (late_hit_frame, Map.empty)))) = 50"
    "hp (p2 (fst (tick uf 16 1000 sample_rolls (late_hit_frame, Map.empty)))) = 46" for uf
    by (simp_all add: late_hit_frame_def hit_by_p1)
  have b: "hp (p1 (fst (tick uf 16 1000 sample_rolls (late_level_frame, Map.empty)))) = 46"
    "hp (p2 (fst (tick uf 16 1000 sample_rolls (late_level_frame, Map.empty)))) = 46" for uf
    by (simp_all add: late_level_frame_def hit_by_p1)
  have ka: "check_KO (p1 (fst (tick True 16 1000 sample_rolls (late_hit_frame, Map.empty))))
                     (p2 (fst (tick True 16 1000 sample_rolls (late_hit_frame, Map.empty)))) = None"
    by (simp add: check_KO_def a)
  have kb: "check_KO (p1 (fst (tick True 16 1000 sample_rolls (late_level_frame, Map.empty))))
                     (p2 (fst (tick True 16 1000 sample_rolls (late_level_frame, Map.empty)))) = None"
    by (simp add: check_KO_def b)
  have wa: "winnerRound (fst (tick uf 16 1000 sample_rolls (late_hit_frame, Map.empty))) = Some Player2"
    for uf
    using ka by (cases uf) (simp_all add: late_hit_frame_def last_frame_round)
  have wb: "winnerRound (fst (tick uf 16 1000 sample_rolls (late_level_frame, Map.empty))) = Some Player2"
    for uf
    using kb by (cases uf) (simp_all add: late_level_frame_def last_frame_round)
  have r: "roundOver (fst (tick uf 16 1000 sample_rolls (late_hit_frame, Map.empty)))"
    "timer (fst (tick uf 16 1000 sample_rolls (late_hit_frame, Map.empty))) = 0" for uf
    by (simp_all add: late_hit_frame_def last_frame_round)
  have i: "hp (p1 late_hit_frame) = 50" "hp (p2 late_hit_frame) = 52"
    "\<not> paused late_hit_frame" "\<not> roundOver late_hit_frame" "matchWinner late_hit_frame = None"
    "timer late_hit_frame - 16 / 1000 \<le> 0"
    "hp (p1 late_level_frame) = 46" "hp (p2 late_level_frame) = 52"
    by (simp_all add: late_hit_frame_def late_level_frame_def)
  show ?thesis
    using i by (simp add: a b wa wb r)
qed

subsection \<open>Knockout\<close>

text \<open>
  Claim C10 says that on a KO frame the winner is player 2 when player 1's hp is at or
  below 0, and player 1 otherwise.  That is what the KO check passes to
  \<^verbatim>\<open>setWinnerRound\<close>, but when the timer runs out in the same frame and the timer
  updater runs during the next render, the updater's value, taken from the hp before the
  frame, is queued last and replaces it.  Player 1 (hp 6) is knocked out by player 2
  (hp 5) in the last frame of the round: the frame ends with player 1 at hp 0 and player 1
  as winner.  In the mirror frame player 2 is knocked out and is named winner.
\<close>

theorem ko_winner_overridden_by_time_up:
  "hp (p1 late_ko_of_p1) = 6 \<and> hp (p2 late_ko_of_p1) = 5 \<and>
   \<not> paused late_ko_of_p1 \<and> \<not> roundOver late_ko_of_p1 \<and> matchWinner late_ko_of_p1 = None \<and>
   timer late_ko_of_p1 - 16 / 1000 \<le> 0 \<and>
   hp (p1 (fst (tick False 16 1000 sample_rolls (late_ko_of_p1, Map.empty)))) = 0 \<and>
   hp (p2 (fst (tick False 16 1000 sample_rolls (late_ko_of_p1, Map.empty)))) = 5 \<and>
   roundOver (fst (tick False 16 1000 sample_rolls (late_ko_of_p1, Map.empty))) \<and>
   check_KO (p1 (fst (tick False 16 1000 sample_rolls (late_ko_of_p1, Map.empty))))
            (p2 (fst (tick False 16 1000 sample_rolls (late_ko_of_p1, Map.empty)))) = Some Player2 \<and>
   winnerRound (fst (tick False 16 1000 sample_rolls (late_ko_of_p1, Map.empty))) = Some Player1 \<and>
   hp (p1 late_ko_of_p2) = 5 \<and> hp (p2 late_ko_of_p2) = 6 \<and>
   hp (p1 (fst (tick False 16 1000 sample_rolls (late_ko_of_p2, Map.empty)))) = 5 \<and>
   hp (p2 (fst (tick False 16 1000 sample_rolls (late_ko_of_p2, Map.empty)))) = 0 \<and>
   roundOver (fst (tick False 16 1000 sample_rolls (late_ko_of_p2, Map.empty))) \<and>
   check_KO (p1 (fst (tick False 16 1000 sample_rolls (late_ko_of_p2, Map.empty))))
            (p2 (fst (tick False 16 1000 sample_rolls (late_ko_of_p2, Map.empty)))) = Some Player1 \<and>
   winnerRound (fst (tick False 16 1000 sample_rolls (late_ko_of_p2, Map.empty))) = Some Player2"
proof -
  have a: "hp (p1 (fst (tick False 16 1000 sample_rolls (late_ko_of_p1, Map.empty)))) = 0"
    "hp (p2 (fst (tick False 16 1000 sample_rolls (late_ko_of_p1, Map.empty)))) = 5"
    by (simp_all add: late_ko_of_p1_def hit_by_p2)
  have b: "hp (p1 (fst (tick False 16 1000 sample_rolls (late_ko_of_p2, Map.empty)))) = 5"
    "hp (p2 (fst (tick False 16 1000 sample_rolls (late_ko_of_p2, Map.empty)))) = 0"
    by (simp_all add: late_ko_of_p2_def hit_by_p1)
  have i: "hp (p1 late_ko_of_p1) = 6" "hp (p2 late_ko_of_p1) = 5"
    "\<not> paused late_ko_of_p1" "\<not> roundOver late_ko_of_p1" "matchWinner late_ko_of_p1 = None"
    "timer late_ko_of_p1 - 16 / 1000 \<le> 0"
    "hp (p1 late_ko_of_p2) = 5" "hp (p2 late_ko_of_p2) = 6"
    by (simp_all add: late_ko_of_p1_def late_ko_of_p2_def)
  have w: "winnerRound (fst (tick False 16 1000 sample_rolls (late_ko_of_p1, Map.empty))) = Some Player1"
    "winnerRound (fst (tick False 16 1000 sample_rolls (late_ko_of_p2, Map.empty))) = Some Player2"
    "roundOver (fst (tick False 16 1000 sample_rolls (late_ko_of_p1, Map.empty)))"
    "roundOver (fst (tick False 16 1000 sample_rolls (late_ko_of_p2, Map.empty)))"
    by (simp_all add: late_ko_of_p1_def late_ko_of_p2_def last_frame_round)
  show ?thesis
    using i by (simp add: a b w check_KO_def)
qed

end
